theory Spec2Isabelle
  imports Complex_Main "HOL-Library.Word"
begin

unbundle bit_operations_syntax

section \<open>Scalars, vectors and quaternions\<close>

text \<open>
  The solver of \<^verbatim>\<open>llik.cpp\<close> computes with \<^verbatim>\<open>F32\<close> values, \<^verbatim>\<open>LLVector3\<close> and
  \<^verbatim>\<open>LLQuaternion\<close>. \<^verbatim>\<open>F32\<close> is idealised as \<open>real\<close>: rounding, infinities and NaN are
  not modelled. A vector has the three components \<^verbatim>\<open>mV[VX..VZ]\<close>, a quaternion the four
  components \<^verbatim>\<open>mQ[VX..VW]\<close>, which the solver reads and writes directly.
\<close>

type_synonym S16 = "16 word"
type_synonym U8 = "8 word"
type_synonym F32 = real

record LLVector3 =
  mV_VX :: F32
  mV_VY :: F32
  mV_VZ :: F32

record LLQuaternion =
  mQ_VX :: F32
  mQ_VY :: F32
  mQ_VZ :: F32
  mQ_VW :: F32

text \<open>\<^verbatim>\<open>LLQuaternion::DEFAULT\<close>, also the value of a default-constructed quaternion
  (the comment in \<^verbatim>\<open>swingTowardTargets\<close>: initialised to \<^verbatim>\<open><W,X,Y,Z> = <0,0,0,1>\<close>).\<close>

text \<open>The constructors \<^verbatim>\<open>LLVector3(x, y, z)\<close> and \<^verbatim>\<open>LLQuaternion(x, y, z, w)\<close>.\<close>

abbreviation vec3 :: "F32 \<Rightarrow> F32 \<Rightarrow> F32 \<Rightarrow> LLVector3" where
  "vec3 x y z \<equiv> \<lparr>mV_VX = x, mV_VY = y, mV_VZ = z\<rparr>"

abbreviation quat :: "F32 \<Rightarrow> F32 \<Rightarrow> F32 \<Rightarrow> F32 \<Rightarrow> LLQuaternion" where
  "quat x y z w \<equiv> \<lparr>mQ_VX = x, mQ_VY = y, mQ_VZ = z, mQ_VW = w\<rparr>"

definition LLQuaternion_DEFAULT :: LLQuaternion where
  "LLQuaternion_DEFAULT = quat 0 0 0 1"

text \<open>
  The operations of \<^verbatim>\<open>v3math.h\<close> and \<^verbatim>\<open>llquaternion.h\<close> are not among the sources. The
  functions below take them as one parameter \<open>K\<close>, so every theorem holds for whatever
  these operations compute.
\<close>

record llmath =
  vec_add :: "LLVector3 \<Rightarrow> LLVector3 \<Rightarrow> LLVector3"
  vec_sub :: "LLVector3 \<Rightarrow> LLVector3 \<Rightarrow> LLVector3"
  vec_scale :: "F32 \<Rightarrow> LLVector3 \<Rightarrow> LLVector3"
  vec_div :: "LLVector3 \<Rightarrow> F32 \<Rightarrow> LLVector3"
  vec_dot :: "LLVector3 \<Rightarrow> LLVector3 \<Rightarrow> F32"
  vec_cross :: "LLVector3 \<Rightarrow> LLVector3 \<Rightarrow> LLVector3"
  vec_length :: "LLVector3 \<Rightarrow> F32"
  vec_normalize :: "LLVector3 \<Rightarrow> LLVector3"
  vec_rot :: "LLVector3 \<Rightarrow> LLQuaternion \<Rightarrow> LLVector3"
  scaledVec :: "LLVector3 \<Rightarrow> LLVector3 \<Rightarrow> LLVector3"
  dist_vec :: "LLVector3 \<Rightarrow> LLVector3 \<Rightarrow> F32"
  quat_mul :: "LLQuaternion \<Rightarrow> LLQuaternion \<Rightarrow> LLQuaternion"
  quat_add :: "LLQuaternion \<Rightarrow> LLQuaternion \<Rightarrow> LLQuaternion"
  quat_sub :: "LLQuaternion \<Rightarrow> LLQuaternion \<Rightarrow> LLQuaternion"
  quat_conjugate :: "LLQuaternion \<Rightarrow> LLQuaternion"
  quat_normalize :: "LLQuaternion \<Rightarrow> LLQuaternion"
  shortestArc :: "LLVector3 \<Rightarrow> LLVector3 \<Rightarrow> LLQuaternion"
  getAngleAxis :: "LLQuaternion \<Rightarrow> F32 \<times> LLVector3"
  setAngleAxis :: "F32 \<Rightarrow> LLVector3 \<Rightarrow> LLQuaternion"
  lerp :: "F32 \<Rightarrow> LLQuaternion \<Rightarrow> LLQuaternion \<Rightarrow> LLQuaternion"
  almost_equal :: "LLQuaternion \<Rightarrow> LLQuaternion \<Rightarrow> bool"
  almost_equal_angle :: "LLQuaternion \<Rightarrow> LLQuaternion \<Rightarrow> F32 \<Rightarrow> bool"

section \<open>Angle helpers\<close>

text \<open>Modelled from the spec: the constants \<^verbatim>\<open>F_PI\<close> and \<^verbatim>\<open>F_TWO_PI\<close> of \<^verbatim>\<open>llmath.h\<close>, which
  is not among the sources, are \<open>\<pi>\<close> and \<open>2\<pi>\<close>.\<close>

definition F_PI :: F32 where
  "F_PI = pi"

definition F_TWO_PI :: F32 where
  "F_TWO_PI = 2 * pi"

definition VERY_SMALL_ANGLE :: F32 where
  "VERY_SMALL_ANGLE = 0.001 * F_PI"

text \<open>The C cast \<^verbatim>\<open>(S32)x\<close> rounds towards zero (for \<open>\<bar>x\<bar> < 2\<^sup>3\<^sup>1\<close>; beyond that the cast is
  undefined in C, and no input below comes near).\<close>

definition S32_cast :: "F32 \<Rightarrow> int" where
  "S32_cast x = (if 0 \<le> x then \<lfloor>x\<rfloor> else \<lceil>x\<rceil>)"

definition remove_multiples_of_two_pi :: "F32 \<Rightarrow> F32" where
  "remove_multiples_of_two_pi angle = angle - F_TWO_PI * of_int (S32_cast (angle / F_TWO_PI))"

text \<open>The two reference arguments are returned as the pair \<open>(min_angle, max_angle)\<close>.\<close>

definition compute_angle_limits :: "F32 \<Rightarrow> F32 \<Rightarrow> F32 \<times> F32" where
  "compute_angle_limits min_angle0 max_angle0 =
     (let max_angle1 = remove_multiples_of_two_pi max_angle0;
          max_angle = (if max_angle1 > F_PI then max_angle1 - F_TWO_PI else max_angle1);
          min_angle1 = remove_multiples_of_two_pi min_angle0;
          min_angle = (if min_angle1 > F_PI then min_angle1 - F_TWO_PI else min_angle1)
      in if min_angle > max_angle then (max_angle, min_angle) else (min_angle, max_angle))"

definition compute_clamped_angle :: "F32 \<Rightarrow> F32 \<Rightarrow> F32 \<Rightarrow> F32" where
  "compute_clamped_angle angle0 min_angle max_angle =
     (if angle0 > max_angle \<or> angle0 < min_angle then
        (let invalid_bisector = max_angle + 0.5 * (F_TWO_PI - (max_angle - min_angle));
             angle = angle0 - of_int (S32_cast (angle0 / F_TWO_PI)) * F_TWO_PI
         in if (angle > max_angle \<and> angle < invalid_bisector) \<or> angle < invalid_bisector - F_TWO_PI
            then max_angle
            else if angle < min_angle \<or> angle > invalid_bisector then min_angle
            else angle)
      else angle0)"

section \<open>Joint configurations\<close>

definition CONFIG_FLAG_LOCAL_POS :: U8 where "CONFIG_FLAG_LOCAL_POS = push_bit 0 1"
definition CONFIG_FLAG_LOCAL_ROT :: U8 where "CONFIG_FLAG_LOCAL_ROT = push_bit 1 1"
definition CONFIG_FLAG_LOCAL_SCALE :: U8 where "CONFIG_FLAG_LOCAL_SCALE = push_bit 2 1"
definition CONFIG_FLAG_DISABLE_CONSTRAINT :: U8 where "CONFIG_FLAG_DISABLE_CONSTRAINT = push_bit 3 1"
definition CONFIG_FLAG_TARGET_POS :: U8 where "CONFIG_FLAG_TARGET_POS = push_bit 4 1"
definition CONFIG_FLAG_TARGET_ROT :: U8 where "CONFIG_FLAG_TARGET_ROT = push_bit 5 1"
definition CONFIG_FLAG_HAS_DELEGATED :: U8 where "CONFIG_FLAG_HAS_DELEGATED = push_bit 6 1"

definition IK_FLAG_LOCAL_ROT :: U8 where "IK_FLAG_LOCAL_ROT = push_bit 1 1"
definition IK_FLAG_ACTIVE :: U8 where "IK_FLAG_ACTIVE = push_bit 5 1"
definition IK_FLAG_LOCAL_ROT_LOCKED :: U8 where "IK_FLAG_LOCAL_ROT_LOCKED = push_bit 7 1"

text \<open>\<^verbatim>\<open>Joint::Config\<close>. Its fields carry the prefix \<open>Config_\<close> because \<^verbatim>\<open>Joint\<close> has fields
  of the same names.\<close>

record Config =
  Config_mLocalPos :: LLVector3
  Config_mLocalRot :: LLQuaternion
  Config_mLocalScale :: LLVector3
  Config_mTargetPos :: LLVector3
  Config_mTargetRot :: LLQuaternion
  Config_mFlags :: U8
  Config_mChainLimit :: U8

definition Config_hasLocalPos :: "Config \<Rightarrow> bool" where
  "Config_hasLocalPos c = ((Config_mFlags c AND CONFIG_FLAG_LOCAL_POS) > 0)"
definition Config_hasLocalRot :: "Config \<Rightarrow> bool" where
  "Config_hasLocalRot c = ((Config_mFlags c AND CONFIG_FLAG_LOCAL_ROT) > 0)"
definition Config_hasLocalScale :: "Config \<Rightarrow> bool" where
  "Config_hasLocalScale c = ((Config_mFlags c AND CONFIG_FLAG_LOCAL_SCALE) > 0)"
definition Config_hasTargetPos :: "Config \<Rightarrow> bool" where
  "Config_hasTargetPos c = ((Config_mFlags c AND CONFIG_FLAG_TARGET_POS) > 0)"
definition Config_hasTargetRot :: "Config \<Rightarrow> bool" where
  "Config_hasTargetRot c = ((Config_mFlags c AND CONFIG_FLAG_TARGET_ROT) > 0)"
definition Config_hasDelegated :: "Config \<Rightarrow> bool" where
  "Config_hasDelegated c = ((Config_mFlags c AND CONFIG_FLAG_HAS_DELEGATED) > 0)"
definition Config_getFlags :: "Config \<Rightarrow> U8" where
  "Config_getFlags c = Config_mFlags c"

section \<open>Constraints\<close>

datatype ConstraintType =
    NULL_CONSTRAINT
  | UNKNOWN_CONSTRAINT
  | SIMPLE_CONE_CONSTRAINT
  | TWIST_LIMITED_CONE_CONSTRAINT
  | SHOULDER_CONSTRAINT
  | ELBOW_CONSTRAINT
  | KNEE_CONSTRAINT
  | ACUTE_ELLIPSOIDAL_CONE_CONSTRAINT
  | DOUBLE_LIMITED_HINGE_CONSTRAINT

text \<open>The data members of \<^verbatim>\<open>AcuteEllipsoidalCone\<close>, \<^verbatim>\<open>mForward\<close> of the base class included;
  the field names carry the prefix \<open>Acute_\<close>.\<close>

record AcuteEllipsoidalCone_members =
  Acute_mForward :: LLVector3
  Acute_mUp :: LLVector3
  Acute_mLeft :: LLVector3
  Acute_mXForward :: F32
  Acute_mXUp :: F32
  Acute_mXDown :: F32
  Acute_mXLeft :: F32
  Acute_mXRight :: F32
  Acute_mQuadrantScales :: "F32 list"
  Acute_mQuadrantCosAngles :: "F32 list"
  Acute_mQuadrantCotAngles :: "F32 list"

text \<open>
  A constraint object is one constructor per concrete class; the arguments are the data
  members, \<^verbatim>\<open>mForward\<close> of the base class first:
  \<^item> \<open>SimpleCone mForward mMaxAngle mCosConeAngle mSinConeAngle\<close>
  \<^item> \<open>TwistLimitedCone mForward mConeAngle mCosConeAngle mSinConeAngle mMinTwist mMaxTwist\<close>
  \<^item> \<open>ShoulderConstraint mForward mConeAxis\<close>
  \<^item> \<open>ElbowConstraint mForward mPivotAxis mPivotXForward mMinBend mMaxBend mMinTwist mMaxTwist\<close>
  \<^item> \<open>KneeConstraint mForward mPivotAxis mPivotXForward mMinBend mMaxBend\<close>
  \<^item> \<open>AcuteEllipsoidalCone members\<close>
  \<^item> \<open>DoubleLimitedHinge mForward mUp mLeft mMinYaw mMaxYaw mMinPitch mMaxPitch\<close>
  \<^verbatim>\<open>mType\<close> is fixed by the class (every constructor of a class stores the same value).
\<close>

datatype Constraint =
    SimpleCone LLVector3 F32 F32 F32
  | TwistLimitedCone LLVector3 F32 F32 F32 F32 F32
  | ShoulderConstraint LLVector3 LLVector3
  | ElbowConstraint LLVector3 LLVector3 LLVector3 F32 F32 F32 F32
  | KneeConstraint LLVector3 LLVector3 LLVector3 F32 F32
  | AcuteEllipsoidalCone AcuteEllipsoidalCone_members
  | DoubleLimitedHinge LLVector3 LLVector3 LLVector3 F32 F32 F32 F32

fun getType :: "Constraint \<Rightarrow> ConstraintType" where
  "getType (SimpleCone _ _ _ _) = SIMPLE_CONE_CONSTRAINT"
| "getType (TwistLimitedCone _ _ _ _ _ _) = TWIST_LIMITED_CONE_CONSTRAINT"
| "getType (ShoulderConstraint _ _) = SHOULDER_CONSTRAINT"
| "getType (ElbowConstraint _ _ _ _ _ _ _) = ELBOW_CONSTRAINT"
| "getType (KneeConstraint _ _ _ _ _) = KNEE_CONSTRAINT"
| "getType (AcuteEllipsoidalCone _) = ACUTE_ELLIPSOIDAL_CONE_CONSTRAINT"
| "getType (DoubleLimitedHinge _ _ _ _ _ _ _) = DOUBLE_LIMITED_HINGE_CONSTRAINT"

fun getForwardAxis :: "Constraint \<Rightarrow> LLVector3" where
  "getForwardAxis (SimpleCone f _ _ _) = f"
| "getForwardAxis (TwistLimitedCone f _ _ _ _ _) = f"
| "getForwardAxis (ShoulderConstraint f _) = f"
| "getForwardAxis (ElbowConstraint f _ _ _ _ _ _) = f"
| "getForwardAxis (KneeConstraint f _ _ _ _) = f"
| "getForwardAxis (AcuteEllipsoidalCone m) = Acute_mForward m"
| "getForwardAxis (DoubleLimitedHinge f _ _ _ _ _ _) = f"

section \<open>Joints\<close>

text \<open>The external \<^verbatim>\<open>LLJoint\<close> info provider: what \<^verbatim>\<open>getPosition()\<close>, \<^verbatim>\<open>getEnd()\<close>,
  \<^verbatim>\<open>getScale()\<close> and \<^verbatim>\<open>getJointNum()\<close> return.\<close>

record LLJoint =
  getPosition :: LLVector3
  getEnd :: LLVector3
  getScale :: LLVector3
  getJointNum :: S16

text \<open>
  Joints are shared through \<^verbatim>\<open>std::shared_ptr\<close>; a pointer is an address \<open>joint_ptr\<close> into a
  heap of joints, the null pointer is \<open>None\<close>. \<^verbatim>\<open>mConfig\<close> points into the solver's config
  map and is modelled by the value it points to.
\<close>

type_synonym joint_ptr = nat

record Joint =
  mChildren :: "joint_ptr list"
  mLocalPos :: LLVector3
  mPos :: LLVector3
  mLocalRot :: LLQuaternion
  mRot :: LLQuaternion
  mLocalScale :: LLVector3
  mBone :: LLVector3
  mParent :: "joint_ptr option"
  mConstraint :: "Constraint option"
  mLocalPosLength :: F32
  mID :: S16
  mInfoPtr :: LLJoint
  mConfig :: "Config option"
  mConfigFlags :: U8
  mIkFlags :: U8

type_synonym joint_heap = "joint_ptr \<Rightarrow> Joint"

datatype error = NullPointerDereference

definition Joint_hasPosTarget :: "Joint \<Rightarrow> bool" where
  "Joint_hasPosTarget j = ((mConfigFlags j AND CONFIG_FLAG_TARGET_POS) > 0)"

definition Joint_hasRotTarget :: "Joint \<Rightarrow> bool" where
  "Joint_hasRotTarget j = ((mConfigFlags j AND CONFIG_FLAG_TARGET_ROT) > 0)"

definition Joint_hasDisabledConstraint :: "Joint \<Rightarrow> bool" where
  "Joint_hasDisabledConstraint j = ((mConfigFlags j AND CONFIG_FLAG_DISABLE_CONSTRAINT) > 0)"

definition activate :: "Joint \<Rightarrow> Joint" where
  "activate j = j\<lparr>mIkFlags := mIkFlags j OR IK_FLAG_ACTIVE\<rparr>"

definition isActive :: "Joint \<Rightarrow> bool" where
  "isActive j = ((mIkFlags j AND IK_FLAG_ACTIVE) \<noteq> 0)"

definition localRotLocked :: "Joint \<Rightarrow> bool" where
  "localRotLocked j = ((mIkFlags j AND IK_FLAG_LOCAL_ROT_LOCKED) > 0)"

definition flagForHarvest :: "Joint \<Rightarrow> Joint" where
  "flagForHarvest j = j\<lparr>mIkFlags := mIkFlags j OR IK_FLAG_LOCAL_ROT\<rparr>"

definition getNumChildren :: "Joint \<Rightarrow> nat" where
  "getNumChildren j = length (mChildren j)"

definition computeWorldEndPos :: "llmath \<Rightarrow> Joint \<Rightarrow> LLVector3" where
  "computeWorldEndPos K j = vec_add K (mPos j) (vec_rot K (mBone j) (mRot j))"

definition setWorldRot :: "LLQuaternion \<Rightarrow> Joint \<Rightarrow> Joint" where
  "setWorldRot rot j = j\<lparr>mRot := rot\<rparr>"

definition setLocalRot :: "LLQuaternion \<Rightarrow> Joint \<Rightarrow> Joint" where
  "setLocalRot new_local_rot j = (if \<not> localRotLocked j then j\<lparr>mLocalRot := new_local_rot\<rparr> else j)"

definition resetFlags :: "Joint \<Rightarrow> Joint" where
  "resetFlags j =
     j\<lparr>mConfig := None, mConfigFlags := 0,
       mIkFlags := (if mParent j \<noteq> None then 0 else IK_FLAG_LOCAL_ROT_LOCKED)\<rparr>"

definition lockLocalRot :: "LLQuaternion \<Rightarrow> Joint \<Rightarrow> Joint" where
  "lockLocalRot local_rot j =
     (let j1 = activate (j\<lparr>mLocalRot := local_rot, mIkFlags := mIkFlags j OR IK_FLAG_LOCAL_ROT_LOCKED\<rparr>)
      in if mParent j1 = None then j1\<lparr>mRot := local_rot\<rparr> else j1)"

section \<open>The solver\<close>

text \<open>
  \<^verbatim>\<open>std::map\<close> is a list of key-value pairs with distinct keys (\<^verbatim>\<open>find\<close> is \<open>map_of\<close>,
  \<^verbatim>\<open>size()\<close> is \<open>length\<close>), iterated in list order; \<^verbatim>\<open>std::set<S16>\<close> is a set. The heap
  of joints that the skeleton owns is the field \<open>joints\<close>.
\<close>

record Solver =
  mSkeleton :: "(S16 \<times> joint_ptr) list"
  joints :: joint_heap
  mJointConfigs :: "(S16 \<times> Config) list"
  mChainMap :: "(S16 \<times> joint_ptr list) list"
  mSubBaseIds :: "S16 set"
  mSubRootIds :: "S16 set"
  mActiveRoots :: "joint_ptr list"
  mActiveJoints :: "joint_ptr list"
  mWristJoints :: "joint_ptr list"
  mAcceptableError :: F32
  mLastError :: F32
  mRootID :: S16

definition isSubBase :: "Solver \<Rightarrow> S16 \<Rightarrow> bool" where
  "isSubBase s joint_id = (joint_id \<in> mSubBaseIds s)"

definition isSubRoot :: "Solver \<Rightarrow> S16 \<Rightarrow> bool" where
  "isSubRoot s joint_id = (mSubRootIds s \<noteq> {} \<and> joint_id \<in> mSubRootIds s)"

subsection \<open>\<^verbatim>\<open>Solver::updateJointConfigs\<close>\<close>

text \<open>The body of the loop over \<^verbatim>\<open>mJointConfigs\<close>: \<open>True\<close> is \<^verbatim>\<open>something_changed = true; break\<close>.\<close>

fun configs_changed :: "llmath \<Rightarrow> F32 \<Rightarrow> (S16 \<times> Config) list \<Rightarrow> (S16 \<times> Config) list \<Rightarrow> bool" where
  "configs_changed K acceptable configs [] = False"
| "configs_changed K acceptable configs ((joint_id, old_target) # rest) =
     (case map_of configs joint_id of
        Some new_target \<Rightarrow>
          (let mask = Config_getFlags old_target in
           if mask \<noteq> Config_getFlags new_target then True
           else if (mask AND CONFIG_FLAG_TARGET_POS) > 0
                   \<and> \<bar>dist_vec K (Config_mTargetPos old_target) (Config_mTargetPos new_target)\<bar> > acceptable
             then True
           else if (mask AND CONFIG_FLAG_TARGET_ROT) > 0
                   \<and> \<not> almost_equal K (Config_mTargetRot old_target) (Config_mTargetRot new_target)
             then True
           else if (mask AND CONFIG_FLAG_LOCAL_POS) > 0
                   \<and> \<bar>dist_vec K (Config_mLocalPos old_target) (Config_mLocalPos new_target)\<bar> > acceptable
             then True
           else if (mask AND CONFIG_FLAG_LOCAL_ROT) > 0
                   \<and> \<not> almost_equal K (Config_mLocalRot old_target) (Config_mLocalRot new_target)
             then True
           else configs_changed K acceptable configs rest)
      | None \<Rightarrow> True)"

definition updateJointConfigs :: "llmath \<Rightarrow> (S16 \<times> Config) list \<Rightarrow> Solver \<Rightarrow> bool \<times> Solver" where
  "updateJointConfigs K configs s =
     (let something_changed =
            (if length configs = length (mJointConfigs s)
             then configs_changed K (mAcceptableError s) configs (mJointConfigs s)
             else True)
      in (something_changed, if something_changed then s\<lparr>mJointConfigs := configs\<rparr> else s))"

subsection \<open>\<^verbatim>\<open>Solver::buildChain\<close>\<close>

text \<open>The \<^verbatim>\<open>while\<close> loop of \<^verbatim>\<open>buildChain\<close>; \<open>joint\<close> is the loop variable, \<open>chain\<close> and
  \<open>sub_bases\<close> are the reference arguments, returned with the heap.\<close>

function buildChain_loop ::
  "Solver \<Rightarrow> joint_ptr option \<Rightarrow> joint_ptr list \<Rightarrow> S16 set \<Rightarrow> nat \<Rightarrow> joint_heap
     \<Rightarrow> joint_ptr list \<times> S16 set \<times> joint_heap" where
  "buildChain_loop s joint chain sub_bases chain_length h =
     (case joint of
        None \<Rightarrow> (chain, sub_bases, h)
      | Some p \<Rightarrow>
          if \<not> length chain < chain_length then (chain, sub_bases, h)
          else
            (let chain' = chain @ [p];
                 h' = h(p := activate (h p));
                 joint_id = mID (h' p)
             in if isSubRoot s joint_id then (chain', sub_bases, h')
                else if joint_id = mRootID s then (chain', sub_bases, h')
                else if Joint_hasPosTarget (h' p) then (chain', sub_bases, h')
                else if (mSubBaseIds s = {} \<and> getNumChildren (h' p) > 1) \<or> isSubBase s joint_id
                  then (chain', insert joint_id sub_bases, h')
                else buildChain_loop s (mParent (h' p)) chain' sub_bases chain_length h'))"
  by pat_completeness auto
termination
  by (relation "measure (\<lambda>(s, joint, chain, sub_bases, chain_length, h). chain_length - length chain)") auto

declare buildChain_loop.simps [simp del]

definition buildChain ::
  "joint_ptr \<Rightarrow> joint_ptr list \<Rightarrow> S16 set \<Rightarrow> nat \<Rightarrow> Solver \<Rightarrow> joint_ptr list \<times> S16 set \<times> Solver" where
  "buildChain joint chain sub_bases chain_length s =
     (let chain' = chain @ [joint];
          h' = (joints s)(joint := activate (joints s joint));
          (chain'', sub_bases', h'') =
             buildChain_loop s (mParent (h' joint)) chain' sub_bases chain_length h'
      in (chain'', sub_bases', s\<lparr>joints := h''\<rparr>))"

subsection \<open>Readback and error measure\<close>

definition getJointWorldRot :: "Solver \<Rightarrow> S16 \<Rightarrow> LLQuaternion" where
  "getJointWorldRot s joint_id =
     (case map_of (mSkeleton s) joint_id of
        Some p \<Rightarrow> mRot (joints s p)
      | None \<Rightarrow> LLQuaternion_DEFAULT)"

text \<open>
  The loop of \<^verbatim>\<open>measureMaxError\<close>. \<^verbatim>\<open>mSkeleton[joint_id]\<close> is \<^verbatim>\<open>std::map::operator[]\<close>: for a
  key that is absent it inserts a null \<^verbatim>\<open>shared_ptr\<close> and returns it, and the call
  \<^verbatim>\<open>->computeWorldEndPos()\<close> dereferences that null pointer.
\<close>

fun measureMaxError_loop :: "llmath \<Rightarrow> Solver \<Rightarrow> (S16 \<times> Config) list \<Rightarrow> F32 \<Rightarrow> error + F32" where
  "measureMaxError_loop K s [] max_error = Inr max_error"
| "measureMaxError_loop K s ((joint_id, target) # rest) max_error =
     (if joint_id = mRootID s then measureMaxError_loop K s rest max_error
      else if Config_hasTargetPos target \<and> \<not> Config_hasDelegated target then
        (case map_of (mSkeleton s) joint_id of
           None \<Rightarrow> Inl NullPointerDereference
         | Some p \<Rightarrow>
             (let end_pos = computeWorldEndPos K (joints s p);
                  dist = dist_vec K end_pos (Config_mTargetPos target)
              in measureMaxError_loop K s rest (if dist > max_error then dist else max_error)))
      else measureMaxError_loop K s rest max_error)"

definition measureMaxError :: "llmath \<Rightarrow> Solver \<Rightarrow> error + F32" where
  "measureMaxError K s = measureMaxError_loop K s (mJointConfigs s) 0"

subsection \<open>\<^verbatim>\<open>Solver::solve\<close>\<close>

definition MAX_SOLVER_ITERATIONS :: nat where "MAX_SOLVER_ITERATIONS = 16"
definition MIN_SOLVER_ITERATIONS :: nat where "MIN_SOLVER_ITERATIONS = 4"

text \<open>\<^verbatim>\<open>std::numeric_limits<F32>::max()\<close>.\<close>

definition F32_MAX :: F32 where
  "F32_MAX = (2 - 1 / 2 ^ 23) * 2 ^ 127"

text \<open>
  \<^verbatim>\<open>solveOnce\<close> runs one FABRIK pass and measures the error. The pass
  (\<^verbatim>\<open>executeFabrikPass\<close>) is a parameter: any function on the solver state.
\<close>

definition solveOnce :: "llmath \<Rightarrow> (bool \<Rightarrow> Solver \<Rightarrow> Solver) \<Rightarrow> Solver \<Rightarrow> error + (F32 \<times> Solver)" where
  "solveOnce K executeFabrikPass s =
     (let enforce_constraints = True;
          s' = executeFabrikPass enforce_constraints s
      in case measureMaxError K s' of Inl e \<Rightarrow> Inl e | Inr max_error \<Rightarrow> Inr (max_error, s'))"

text \<open>
  The \<^verbatim>\<open>for\<close> loop of \<^verbatim>\<open>solve\<close>, over any \<open>pass\<close> in place of \<^verbatim>\<open>solveOnce\<close>. It returns the
  final value of \<^verbatim>\<open>loop\<close> (the number of passes run) with \<^verbatim>\<open>max_error\<close> and the state.
\<close>

function solve_loop ::
  "(Solver \<Rightarrow> error + (F32 \<times> Solver)) \<Rightarrow> nat \<Rightarrow> F32 \<Rightarrow> Solver \<Rightarrow> error + (nat \<times> F32 \<times> Solver)" where
  "solve_loop pass loop max_error s =
     (if loop < MIN_SOLVER_ITERATIONS \<or> (loop < MAX_SOLVER_ITERATIONS \<and> max_error > mAcceptableError s)
      then (case pass s of
              Inl e \<Rightarrow> Inl e
            | Inr (max_error', s') \<Rightarrow> solve_loop pass (Suc loop) max_error' s')
      else Inr (loop, max_error, s))"
  by pat_completeness auto
termination
  by (relation "measure (\<lambda>(pass, loop, max_error, s). MAX_SOLVER_ITERATIONS - loop)")
     (auto simp: MAX_SOLVER_ITERATIONS_def MIN_SOLVER_ITERATIONS_def)

declare solve_loop.simps [simp del]

text \<open>
  \<^verbatim>\<open>solve\<close>: \<^verbatim>\<open>rebuildAllChains\<close> and \<^verbatim>\<open>Joint::relaxRotationsRecursively\<close> are parameters. The
  result is the returned \<^verbatim>\<open>mLastError\<close>, with the number of passes and the final state.
\<close>

definition INITIAL_RELAXATION_FACTOR :: F32 where
  "INITIAL_RELAXATION_FACTOR = 0.25"

definition solve ::
  "(Solver \<Rightarrow> Solver) \<Rightarrow> (joint_ptr \<Rightarrow> F32 \<Rightarrow> Solver \<Rightarrow> Solver)
     \<Rightarrow> (Solver \<Rightarrow> error + (F32 \<times> Solver)) \<Rightarrow> Solver \<Rightarrow> error + (nat \<times> F32 \<times> Solver)" where
  "solve rebuildAllChains relaxRotationsRecursively pass s =
     (let s1 = rebuildAllChains s;
          s2 = fold (\<lambda>root. relaxRotationsRecursively root INITIAL_RELAXATION_FACTOR) (mActiveRoots s1) s1
      in case solve_loop pass 0 F32_MAX s2 of
           Inl e \<Rightarrow> Inl e
         | Inr (loop, max_error, s3) \<Rightarrow> Inr (loop, max_error, s3\<lparr>mLastError := max_error\<rparr>))"

section \<open>Constraint enforcement and the joint update primitives\<close>

subsection \<open>\<^verbatim>\<open>SimpleCone\<close>\<close>

definition SimpleCone_ctor :: "llmath \<Rightarrow> LLVector3 \<Rightarrow> F32 \<Rightarrow> Constraint" where
  "SimpleCone_ctor K forward max_angle =
     (let mForward = vec_normalize K forward;
          mMaxAngle = \<bar>max_angle\<bar>
      in SimpleCone mForward mMaxAngle (cos mMaxAngle) (sin mMaxAngle))"

fun SimpleCone_computeAdjustedLocalRot :: "llmath \<Rightarrow> Constraint \<Rightarrow> LLQuaternion \<Rightarrow> LLQuaternion" where
  "SimpleCone_computeAdjustedLocalRot K (SimpleCone mForward mMaxAngle mCosConeAngle mSinConeAngle)
       joint_local_rot =
     (let forward = vec_rot K mForward joint_local_rot;
          forward_component = vec_dot K forward mForward
      in if forward_component < mCosConeAngle then
           (let perp = vec_normalize K (vec_sub K forward (vec_scale K forward_component mForward));
                new_forward = vec_add K (vec_scale K mCosConeAngle mForward) (vec_scale K mSinConeAngle perp);
                adjustment = shortestArc K forward new_forward
            in quat_normalize K (quat_mul K joint_local_rot adjustment))
         else joint_local_rot)"

declare SimpleCone_computeAdjustedLocalRot.simps [simp del]

subsection \<open>The base \<^verbatim>\<open>Constraint::enforce\<close>\<close>

text \<open>
  \<^verbatim>\<open>computeAdjustedLocalRot\<close> is pure virtual in the base class: it is the parameter
  \<open>computeAdjustedLocalRot\<close>, any function on rotations. The result is the returned flag and
  the joint after the call.
\<close>

definition Constraint_enforce ::
  "llmath \<Rightarrow> (LLQuaternion \<Rightarrow> LLQuaternion) \<Rightarrow> Joint \<Rightarrow> bool \<times> Joint" where
  "Constraint_enforce K computeAdjustedLocalRot joint =
     (let local_rot = mLocalRot joint;
          adjusted_local_rot = computeAdjustedLocalRot local_rot
      in if \<not> almost_equal K adjusted_local_rot local_rot
         then (True, setLocalRot adjusted_local_rot joint)
         else (False, joint))"

text \<open>The same call on a joint of the heap.\<close>

definition Constraint_enforce_at ::
  "llmath \<Rightarrow> (LLQuaternion \<Rightarrow> LLQuaternion) \<Rightarrow> joint_ptr \<Rightarrow> joint_heap \<Rightarrow> error + (bool \<times> joint_heap)" where
  "Constraint_enforce_at K computeAdjustedLocalRot p h =
     (let (changed, joint') = Constraint_enforce K computeAdjustedLocalRot (h p)
      in Inr (changed, h(p := joint')))"

subsection \<open>\<^verbatim>\<open>Joint\<close> primitives that read the parent\<close>

text \<open>
  \<open>mParent->\<close> on a joint without parent is a null dereference. The virtual call
  \<^verbatim>\<open>mConstraint->enforce(*this)\<close> is the parameter \<open>enforce\<close>: a function of the constraint
  object, the joint and the heap, so the theorems hold for every override.
\<close>

type_synonym enforce_fn = "Constraint \<Rightarrow> joint_ptr \<Rightarrow> joint_heap \<Rightarrow> error + (bool \<times> joint_heap)"

definition enforceConstraint :: "enforce_fn \<Rightarrow> joint_ptr \<Rightarrow> joint_heap \<Rightarrow> error + (bool \<times> joint_heap)" where
  "enforceConstraint enforce p h =
     (case mConstraint (h p) of
        Some c \<Rightarrow>
          if \<not> localRotLocked (h p) \<and> \<not> Joint_hasDisabledConstraint (h p) then enforce c p h
          else Inr (False, h)
      | None \<Rightarrow> Inr (False, h))"

definition updateLocalRot ::
  "llmath \<Rightarrow> enforce_fn \<Rightarrow> joint_ptr \<Rightarrow> bool \<Rightarrow> joint_heap \<Rightarrow> error + (bool \<times> joint_heap)" where
  "updateLocalRot K enforce p enforce_constraints h =
     (case mParent (h p) of
        None \<Rightarrow> Inl NullPointerDereference
      | Some parent \<Rightarrow>
          (let inv_parentRot = quat_conjugate K (mRot (h parent));
               new_local_rot = quat_normalize K (quat_mul K (mRot (h p)) inv_parentRot)
           in if \<not> almost_equal K new_local_rot (mLocalRot (h p)) then
                (if localRotLocked (h p) then Inr (True, h)
                 else (let h1 = h(p := (h p)\<lparr>mLocalRot := new_local_rot\<rparr>)
                       in if enforce_constraints then enforceConstraint enforce p h1
                          else Inr (False, h1)))
              else Inr (False, h)))"

definition resetFromInfo :: "llmath \<Rightarrow> Joint \<Rightarrow> Joint" where
  "resetFromInfo K j =
     (let scale = getScale (mInfoPtr j);
          local_pos = scaledVec K (getPosition (mInfoPtr j)) scale
      in j\<lparr>mLocalPos := local_pos, mBone := scaledVec K (getEnd (mInfoPtr j)) scale,
           mLocalPosLength := vec_length K local_pos, mLocalScale := vec3 1 1 1\<rparr>)"

definition reset :: "llmath \<Rightarrow> joint_ptr \<Rightarrow> joint_heap \<Rightarrow> joint_heap" where
  "reset K p h =
     (let h1 = h(p := (resetFromInfo K (h p))\<lparr>mLocalRot := LLQuaternion_DEFAULT\<rparr>)
      in case mParent (h1 p) of
           Some parent \<Rightarrow>
             h1(p := (h1 p)\<lparr>mPos := vec_add K (mPos (h1 parent))
                                       (vec_rot K (mLocalPos (h1 p)) (mRot (h1 parent))),
                             mRot := mRot (h1 parent)\<rparr>)
         | None \<Rightarrow> h1(p := (h1 p)\<lparr>mPos := mLocalPos (h1 p), mRot := mLocalRot (h1 p)\<rparr>))"

definition setParent :: "llmath \<Rightarrow> joint_ptr option \<Rightarrow> joint_ptr \<Rightarrow> joint_heap \<Rightarrow> joint_heap" where
  "setParent K parent p h =
     (let j = (h p)\<lparr>mParent := parent\<rparr>;
          j' = (if parent = None then j\<lparr>mIkFlags := IK_FLAG_LOCAL_ROT_LOCKED\<rparr> else j)
      in reset K p (h(p := j')))"

definition relaxRot :: "llmath \<Rightarrow> F32 \<Rightarrow> joint_ptr \<Rightarrow> joint_heap \<Rightarrow> joint_heap" where
  "relaxRot K blend_factor p h =
     (let h1 = (if \<not> localRotLocked (h p)
                then h(p := (h p)\<lparr>mLocalRot := lerp K blend_factor (mLocalRot (h p)) LLQuaternion_DEFAULT\<rparr>)
                else h)
      in case mParent (h1 p) of
           Some parent \<Rightarrow>
             h1(p := (h1 p)\<lparr>mRot := quat_normalize K (quat_mul K (mLocalRot (h1 p)) (mRot (h1 parent))),
                             mPos := vec_add K (mPos (h1 parent))
                                       (vec_rot K (mLocalPos (h1 p)) (mRot (h1 parent)))\<rparr>)
         | None \<Rightarrow> h1(p := (h1 p)\<lparr>mRot := mLocalRot (h1 p), mPos := mLocalPos (h1 p)\<rparr>))"

text \<open>\<^verbatim>\<open>mConfig->\<close> on a joint without config is a null dereference.\<close>

definition applyLocalRot :: "llmath \<Rightarrow> joint_ptr \<Rightarrow> joint_heap \<Rightarrow> error + joint_heap" where
  "applyLocalRot K p h =
     (case mParent (h p) of
        Some parent \<Rightarrow>
          if Joint_hasRotTarget (h p) then
            (case mConfig (h p) of
               None \<Rightarrow> Inl NullPointerDereference
             | Some c \<Rightarrow>
                 (let new_rot = quat_mul K (mLocalRot (h p)) (mRot (h parent));
                      rot = lerp K 0.5 (Config_mTargetRot c) new_rot;
                      h1 = h(p := (h p)\<lparr>mRot := rot\<rparr>);
                      inv_parentRot = quat_conjugate K (mRot (h1 parent))
                  in Inr (h1(p := (h1 p)\<lparr>mLocalRot :=
                                quat_normalize K (quat_mul K (mRot (h1 p)) inv_parentRot)\<rparr>))))
          else Inr (h(p := (h p)\<lparr>mRot := quat_normalize K (quat_mul K (mLocalRot (h p)) (mRot (h parent)))\<rparr>))
      | None \<Rightarrow> Inr (h(p := (h p)\<lparr>mRot := mLocalRot (h p)\<rparr>)))"

section \<open>Constraint construction, hashing and the factory\<close>

text \<open>
  An \<^verbatim>\<open>LLSD\<close> constraint definition: its \<^verbatim>\<open>"type"\<close> string and what \<^verbatim>\<open>asReal()\<close> and the
  conversion to \<^verbatim>\<open>LLVector3\<close> yield for each key.
\<close>

record LLSD =
  LLSD_type :: string
  LLSD_asReal :: "string \<Rightarrow> F32"
  LLSD_asVector3 :: "string \<Rightarrow> LLVector3"

text \<open>Modelled from the spec: the constant \<^verbatim>\<open>DEG_TO_RAD\<close> of \<^verbatim>\<open>llmath.h\<close> converts the degrees
  of the serialization boundary to radians.\<close>

definition DEG_TO_RAD :: F32 where
  "DEG_TO_RAD = pi / 180"

text \<open>\<^verbatim>\<open>boost::to_upper\<close> on an ASCII string.\<close>

definition to_upper :: "string \<Rightarrow> string" where
  "to_upper str =
     map (\<lambda>c. if 97 \<le> (of_char c :: nat) \<and> (of_char c :: nat) \<le> 122
                then char_of ((of_char c :: nat) - 32) else c) str"

text \<open>The base constructor \<^verbatim>\<open>Constraint(type, parameters)\<close> computes \<^verbatim>\<open>mForward\<close>.\<close>

definition Constraint_forward :: "llmath \<Rightarrow> LLSD \<Rightarrow> LLVector3" where
  "Constraint_forward K parameters = vec_normalize K (LLSD_asVector3 parameters ''forward_axis'')"

definition SimpleCone_LLSD :: "llmath \<Rightarrow> LLSD \<Rightarrow> Constraint" where
  "SimpleCone_LLSD K parameters =
     (let mMaxAngle = \<bar>LLSD_asReal parameters ''max_angle''\<bar> * DEG_TO_RAD
      in SimpleCone (Constraint_forward K parameters) mMaxAngle (cos mMaxAngle) (sin mMaxAngle))"

definition TwistLimitedCone_LLSD :: "llmath \<Rightarrow> LLSD \<Rightarrow> Constraint" where
  "TwistLimitedCone_LLSD K parameters =
     (let mConeAngle = LLSD_asReal parameters ''cone_angle'' * DEG_TO_RAD;
          (mMinTwist, mMaxTwist) =
             compute_angle_limits (LLSD_asReal parameters ''min_twist'' * DEG_TO_RAD)
                                  (LLSD_asReal parameters ''max_twist'' * DEG_TO_RAD)
      in TwistLimitedCone (Constraint_forward K parameters) mConeAngle (cos mConeAngle) (sin mConeAngle)
           mMinTwist mMaxTwist)"

definition ShoulderConstraint_LLSD :: "llmath \<Rightarrow> LLSD \<Rightarrow> Constraint" where
  "ShoulderConstraint_LLSD K parameters =
     (let mForward = Constraint_forward K parameters;
          mConeAxis = vec_normalize K
                        (vec_sub K (vec_add K mForward (vec3 1 0 0)) (vec_scale K 1.5 (vec3 0 0 1)))
      in ShoulderConstraint mForward mConeAxis)"

definition ElbowConstraint_LLSD :: "llmath \<Rightarrow> LLSD \<Rightarrow> Constraint" where
  "ElbowConstraint_LLSD K parameters =
     (let mForward = Constraint_forward K parameters;
          mPivotAxis = vec_normalize K
                         (vec_cross K mForward (vec_cross K (LLSD_asVector3 parameters ''pivot_axis'') mForward));
          mPivotXForward = vec_cross K mPivotAxis mForward;
          (mMinBend, mMaxBend) =
             compute_angle_limits (LLSD_asReal parameters ''min_bend'' * DEG_TO_RAD)
                                  (LLSD_asReal parameters ''max_bend'' * DEG_TO_RAD);
          (mMinTwist, mMaxTwist) =
             compute_angle_limits (LLSD_asReal parameters ''min_twist'' * DEG_TO_RAD)
                                  (LLSD_asReal parameters ''max_twist'' * DEG_TO_RAD)
      in ElbowConstraint mForward mPivotAxis mPivotXForward mMinBend mMaxBend mMinTwist mMaxTwist)"

definition KneeConstraint_LLSD :: "llmath \<Rightarrow> LLSD \<Rightarrow> Constraint" where
  "KneeConstraint_LLSD K parameters =
     (let mForward = Constraint_forward K parameters;
          mPivotAxis = vec_normalize K
                         (vec_cross K mForward (vec_cross K (LLSD_asVector3 parameters ''pivot_axis'') mForward));
          mPivotXForward = vec_cross K mPivotAxis mForward;
          (mMinBend, mMaxBend) =
             compute_angle_limits (LLSD_asReal parameters ''min_bend'' * DEG_TO_RAD)
                                  (LLSD_asReal parameters ''max_bend'' * DEG_TO_RAD)
      in KneeConstraint mForward mPivotAxis mPivotXForward mMinBend mMaxBend)"

definition AcuteEllipsoidalCone_LLSD :: "llmath \<Rightarrow> LLSD \<Rightarrow> Constraint" where
  "AcuteEllipsoidalCone_LLSD K parameters =
     (let mUp = vec_normalize K (LLSD_asVector3 parameters ''up_axis'');
          mForward = vec_normalize K (vec_cross K (vec_cross K mUp (Constraint_forward K parameters)) mUp);
          mLeft = vec_cross K mUp mForward;
          mXForward = LLSD_asReal parameters ''forward'';
          mXUp = LLSD_asReal parameters ''up'';
          mXDown = LLSD_asReal parameters ''down'';
          mXLeft = LLSD_asReal parameters ''left'';
          mXRight = LLSD_asReal parameters ''right'';
          up = \<bar>mXUp / mXForward\<bar>;
          left = \<bar>mXLeft / mXForward\<bar>;
          down = \<bar>mXDown / mXForward\<bar>;
          right = \<bar>mXRight / mXForward\<bar>
      in AcuteEllipsoidalCone
           \<lparr>Acute_mForward = mForward, Acute_mUp = mUp, Acute_mLeft = mLeft,
            Acute_mXForward = mXForward, Acute_mXUp = mXUp, Acute_mXDown = mXDown,
            Acute_mXLeft = mXLeft, Acute_mXRight = mXRight,
            Acute_mQuadrantScales = [up / right, up / left, down / left, down / right],
            Acute_mQuadrantCosAngles =
              [1 / sqrt (up * up + 1), 1 / sqrt (up * up + 1),
               1 / sqrt (down * down + 1), 1 / sqrt (down * down + 1)],
            Acute_mQuadrantCotAngles = [1 / up, 1 / up, 1 / down, 1 / down]\<rparr>)"

text \<open>The pitch clamp of the \<^verbatim>\<open>DoubleLimitedHinge\<close> constructor, to \<open>[-\<pi>/2, \<pi>/2]\<close>.\<close>

definition clamp_pitch :: "F32 \<Rightarrow> F32" where
  "clamp_pitch pitch =
     (let HALF_PI = 0.5 * F_PI;
          p = remove_multiples_of_two_pi pitch
      in if p > HALF_PI then HALF_PI else if p < - HALF_PI then - HALF_PI else p)"

definition DoubleLimitedHinge_LLSD :: "llmath \<Rightarrow> LLSD \<Rightarrow> Constraint" where
  "DoubleLimitedHinge_LLSD K parameters =
     (let mForward = Constraint_forward K parameters;
          mUp = vec_normalize K
                  (vec_cross K mForward (vec_cross K (LLSD_asVector3 parameters ''up_axis'') mForward));
          mLeft = vec_cross K mUp mForward;
          (mMinYaw, mMaxYaw) =
             compute_angle_limits (LLSD_asReal parameters ''min_yaw'' * DEG_TO_RAD)
                                  (LLSD_asReal parameters ''max_yaw'' * DEG_TO_RAD);
          mMinPitch0 = clamp_pitch (LLSD_asReal parameters ''min_pitch'' * DEG_TO_RAD);
          mMaxPitch0 = clamp_pitch (LLSD_asReal parameters ''max_pitch'' * DEG_TO_RAD);
          (mMinPitch, mMaxPitch) =
             (if mMinPitch0 > mMaxPitch0 then (mMaxPitch0, mMinPitch0) else (mMinPitch0, mMaxPitch0))
      in DoubleLimitedHinge mForward mUp mLeft mMinYaw mMaxYaw mMinPitch mMaxPitch)"

text \<open>\<^verbatim>\<open>LLIKConstraintFactory::create\<close>: a null pointer (\<open>None\<close>) for an unknown type name.\<close>

definition create :: "llmath \<Rightarrow> LLSD \<Rightarrow> Constraint option" where
  "create K data =
     (let type = to_upper (LLSD_type data)
      in if type = ''SIMPLE_CONE'' then Some (SimpleCone_LLSD K data)
         else if type = ''TWIST_LIMITED_CONE'' then Some (TwistLimitedCone_LLSD K data)
         else if type = ''SHOULDER'' then Some (ShoulderConstraint_LLSD K data)
         else if type = ''ELBOW'' then Some (ElbowConstraint_LLSD K data)
         else if type = ''KNEE'' then Some (KneeConstraint_LLSD K data)
         else if type = ''ACUTE_ELLIPSOIDAL_CONE'' then Some (AcuteEllipsoidalCone_LLSD K data)
         else if type = ''DOUBLE_LIMITED_HINGE'' then Some (DoubleLimitedHinge_LLSD K data)
         else None)"

text \<open>
  \<^verbatim>\<open>generateHash\<close>. A hash is a \<^verbatim>\<open>size_t\<close>; \<^verbatim>\<open>boost::hash_combine(seed, v)\<close> is the
  parameter \<open>hash_combine\<close>, applied to the seed and to the value \<open>v\<close>, which is a
  constraint type, a vector or an \<^verbatim>\<open>F32\<close>.
\<close>

datatype hash_value = HashType ConstraintType | HashVector3 LLVector3 | HashF32 F32

type_synonym size_t = "64 word"

definition Constraint_generateHash :: "(size_t \<Rightarrow> hash_value \<Rightarrow> size_t) \<Rightarrow> Constraint \<Rightarrow> size_t" where
  "Constraint_generateHash hash_combine c =
     foldl hash_combine 0 [HashType (getType c), HashVector3 (getForwardAxis c)]"

fun generateHash :: "(size_t \<Rightarrow> hash_value \<Rightarrow> size_t) \<Rightarrow> Constraint \<Rightarrow> size_t" where
  "generateHash hash_combine (SimpleCone mForward mMaxAngle mCosConeAngle mSinConeAngle) =
     foldl hash_combine
       (Constraint_generateHash hash_combine (SimpleCone mForward mMaxAngle mCosConeAngle mSinConeAngle))
       [HashF32 mMaxAngle]"
| "generateHash hash_combine
       (TwistLimitedCone mForward mConeAngle mCosConeAngle mSinConeAngle mMinTwist mMaxTwist) =
     foldl hash_combine
       (Constraint_generateHash hash_combine
          (TwistLimitedCone mForward mConeAngle mCosConeAngle mSinConeAngle mMinTwist mMaxTwist))
       [HashF32 mConeAngle, HashF32 mMinTwist, HashF32 mMaxTwist]"
| "generateHash hash_combine (ShoulderConstraint mForward mConeAxis) =
     Constraint_generateHash hash_combine (ShoulderConstraint mForward mConeAxis)"
| "generateHash hash_combine
       (ElbowConstraint mForward mPivotAxis mPivotXForward mMinBend mMaxBend mMinTwist mMaxTwist) =
     foldl hash_combine
       (Constraint_generateHash hash_combine
          (ElbowConstraint mForward mPivotAxis mPivotXForward mMinBend mMaxBend mMinTwist mMaxTwist))
       [HashVector3 mPivotAxis, HashF32 mMinBend, HashF32 mMaxBend, HashF32 mMinTwist, HashF32 mMaxTwist]"
| "generateHash hash_combine (KneeConstraint mForward mPivotAxis mPivotXForward mMinBend mMaxBend) =
     foldl hash_combine
       (Constraint_generateHash hash_combine
          (KneeConstraint mForward mPivotAxis mPivotXForward mMinBend mMaxBend))
       [HashVector3 mPivotAxis, HashF32 mMinBend, HashF32 mMaxBend]"
| "generateHash hash_combine (AcuteEllipsoidalCone m) =
     foldl hash_combine
       (Constraint_generateHash hash_combine (AcuteEllipsoidalCone m))
       [HashVector3 (Acute_mUp m), HashF32 (Acute_mXForward m), HashF32 (Acute_mXUp m),
        HashF32 (Acute_mXDown m), HashVector3 (Acute_mLeft m), HashF32 (Acute_mXRight m)]"
| "generateHash hash_combine
       (DoubleLimitedHinge mForward mUp mLeft mMinYaw mMaxYaw mMinPitch mMaxPitch) =
     foldl hash_combine
       (Constraint_generateHash hash_combine
          (DoubleLimitedHinge mForward mUp mLeft mMinYaw mMaxYaw mMinPitch mMaxPitch))
       [HashVector3 mUp, HashF32 mMinYaw, HashF32 mMaxYaw, HashF32 mMinPitch, HashF32 mMaxPitch]"

text \<open>
  The factory. A \<^verbatim>\<open>Constraint::ptr_t\<close> is modelled by the object it points to: returning
  the cached pointer is returning the cached object.
\<close>

record LLIKConstraintFactory =
  mConstraints :: "size_t \<rightharpoonup> Constraint"
  mJointMapping :: "string \<rightharpoonup> Constraint"

definition getConstraint ::
  "llmath \<Rightarrow> (size_t \<Rightarrow> hash_value \<Rightarrow> size_t) \<Rightarrow> LLSD \<Rightarrow> LLIKConstraintFactory
     \<Rightarrow> Constraint option \<times> LLIKConstraintFactory" where
  "getConstraint K hash_combine constraint_def f =
     (case create K constraint_def of
        None \<Rightarrow> (None, f)
      | Some ptr \<Rightarrow>
          (let id = generateHash hash_combine ptr
           in case mConstraints f id of
                None \<Rightarrow> (Some ptr, f\<lparr>mConstraints := (mConstraints f)(id \<mapsto> ptr)\<rparr>)
              | Some it \<Rightarrow> (Some it, f)))"

section \<open>Inward update and the elbow\<close>

subsection \<open>\<^verbatim>\<open>Joint::updateEndInward\<close>\<close>

definition collectTargetPositions ::
  "joint_ptr \<Rightarrow> joint_heap \<Rightarrow> error + (LLVector3 list \<times> LLVector3 list)" where
  "collectTargetPositions p h =
     (if Joint_hasPosTarget (h p) then
        (case mConfig (h p) of
           None \<Rightarrow> Inl NullPointerDereference
         | Some c \<Rightarrow> Inr ([mBone (h p)], [Config_mTargetPos c]))
      else
        (let active = filter (\<lambda>child. isActive (h child)) (mChildren (h p))
         in Inr (map (\<lambda>child. mLocalPos (h child)) active, map (\<lambda>child. mPos (h child)) active)))"

text \<open>One round of the loop over the targets (\<^verbatim>\<open>num_targets \<noteq> 1\<close>): the accumulated
  \<^verbatim>\<open>new_pos\<close> and \<^verbatim>\<open>avg_adjustment\<close>, for the joint's current \<^verbatim>\<open>mPos\<close> and \<^verbatim>\<open>mRot\<close>.\<close>

definition target_step ::
  "llmath \<Rightarrow> LLVector3 \<Rightarrow> LLQuaternion \<Rightarrow> LLVector3 \<times> LLQuaternion \<Rightarrow> LLVector3 \<times> LLVector3
     \<Rightarrow> LLVector3 \<times> LLQuaternion" where
  "target_step K pos rot acc target =
     (let (new_pos, avg_adjustment) = acc;
          (local_target, world_target) = target;
          new_bone = vec_scale K (vec_length K local_target)
                       (vec_normalize K (vec_sub K world_target pos));
          old_bone = vec_rot K local_target rot;
          adjustment = shortestArc K old_bone new_bone
      in (vec_add K new_pos (vec_sub K world_target new_bone),
          if mQ_VW adjustment < 0 then quat_sub K avg_adjustment adjustment
          else quat_add K avg_adjustment adjustment))"

text \<open>The first part of \<^verbatim>\<open>updateEndInward\<close>: \<^verbatim>\<open>mPos\<close> and \<^verbatim>\<open>mRot\<close> from the targets.\<close>

definition updateEndInward_targets :: "llmath \<Rightarrow> joint_ptr \<Rightarrow> joint_heap \<Rightarrow> error + joint_heap" where
  "updateEndInward_targets K p h =
     (if Joint_hasRotTarget (h p) then
        (case mConfig (h p) of
           None \<Rightarrow> Inl NullPointerDereference
         | Some c \<Rightarrow>
             (let h1 = h(p := (h p)\<lparr>mRot := Config_mTargetRot c\<rparr>)
              in if Joint_hasPosTarget (h1 p)
                 then Inr (h1(p := (h1 p)\<lparr>mPos := vec_sub K (Config_mTargetPos c)
                                                      (vec_rot K (mBone (h1 p)) (mRot (h1 p)))\<rparr>))
                 else Inr h1))
      else
        (case collectTargetPositions p h of
           Inl e \<Rightarrow> Inl e
         | Inr (local_targets, world_targets) \<Rightarrow>
             (let num_targets = length local_targets in
              if num_targets = 1 then
                (let bone_dir = vec_normalize K (vec_sub K (world_targets ! 0) (mPos (h p)));
                     h1 = h(p := (h p)\<lparr>mPos := vec_sub K (world_targets ! 0)
                                (vec_scale K (vec_length K (local_targets ! 0)) bone_dir)\<rparr>);
                     old_bone = vec_rot K (local_targets ! 0) (mRot (h1 p));
                     adjustment = shortestArc K old_bone bone_dir
                 in Inr (h1(p := (h1 p)\<lparr>mRot := quat_normalize K (quat_mul K (mRot (h1 p)) adjustment)\<rparr>)))
              else
                (let (new_pos, avg_adjustment) =
                       foldl (target_step K (mPos (h p)) (mRot (h p))) (vec3 0 0 0, quat 0 0 0 0)
                         (zip local_targets world_targets);
                     h1 = (case mParent (h p) of
                             Some parent \<Rightarrow>
                               if isActive (h parent)
                               then h(p := (h p)\<lparr>mPos := vec_div K new_pos (real num_targets)\<rparr>)
                               else h
                           | None \<Rightarrow> h);
                     avg = quat_normalize K avg_adjustment
                 in Inr (h1(p := (h1 p)\<lparr>mRot := quat_normalize K (quat_mul K (mRot (h1 p)) avg)\<rparr>))))))"

text \<open>The loop that updates the local rotation of each active child.\<close>

fun updateEndInward_children ::
  "llmath \<Rightarrow> enforce_fn \<Rightarrow> bool \<Rightarrow> joint_ptr list \<Rightarrow> bool \<Rightarrow> joint_heap
     \<Rightarrow> error + (bool \<times> joint_heap)" where
  "updateEndInward_children K enforce enforce_constraints [] something_changed h =
     Inr (something_changed, h)"
| "updateEndInward_children K enforce enforce_constraints (child # rest) something_changed h =
     (if isActive (h child) then
        (case updateLocalRot K enforce child enforce_constraints h of
           Inl e \<Rightarrow> Inl e
         | Inr (changed, h') \<Rightarrow>
             updateEndInward_children K enforce enforce_constraints rest
               (changed \<or> something_changed) h')
      else updateEndInward_children K enforce enforce_constraints rest something_changed h)"

text \<open>The loop that recomputes \<^verbatim>\<open>mRot\<close> of joint \<open>p\<close> from its children: \<^verbatim>\<open>avg_rot\<close> is
  normalised and stored in every round.\<close>

fun updateEndInward_average ::
  "llmath \<Rightarrow> joint_ptr \<Rightarrow> joint_ptr list \<Rightarrow> LLQuaternion \<Rightarrow> joint_heap \<Rightarrow> joint_heap" where
  "updateEndInward_average K p [] avg_rot h = h"
| "updateEndInward_average K p (child # rest) avg_rot h =
     (let child_local_rot_inv = quat_conjugate K (mLocalRot (h child));
          rot = quat_mul K child_local_rot_inv (mRot (h child));
          avg_rot1 = (if mQ_VW rot < 0 then quat_sub K avg_rot rot else quat_add K avg_rot rot);
          avg_rot2 = quat_normalize K avg_rot1
      in updateEndInward_average K p rest avg_rot2 (h(p := (h p)\<lparr>mRot := avg_rot2\<rparr>)))"

declare updateEndInward_children.simps [simp del] updateEndInward_average.simps [simp del]

definition updateEndInward ::
  "llmath \<Rightarrow> enforce_fn \<Rightarrow> joint_ptr \<Rightarrow> bool \<Rightarrow> joint_heap \<Rightarrow> error + joint_heap" where
  "updateEndInward K enforce p enforce_constraints h =
     (case updateEndInward_targets K p h of
        Inl e \<Rightarrow> Inl e
      | Inr h1 \<Rightarrow>
          (case updateEndInward_children K enforce enforce_constraints (mChildren (h1 p)) False h1 of
             Inl e \<Rightarrow> Inl e
           | Inr (something_changed, h2) \<Rightarrow>
               if something_changed
               then Inr (updateEndInward_average K p (mChildren (h2 p))
                           (LLQuaternion_DEFAULT\<lparr>mQ_VW := 0\<rparr>) h2)
               else Inr h2))"

subsection \<open>\<^verbatim>\<open>ElbowConstraint::enforce\<close>\<close>

definition MIN_PIVOT_LENGTH :: F32 where
  "MIN_PIVOT_LENGTH = 0.000001"

text \<open>
  The override of \<^verbatim>\<open>enforce\<close> for the elbow. \<open>computeAdjustedLocalRot\<close> is the
  constraint's own projection, used when the elbow has no parent; \<open>enforce\<close> is passed on
  to \<^verbatim>\<open>updateLocalRot\<close>, which is called with \<^verbatim>\<open>enforce_constraints = false\<close>.
\<close>

fun ElbowConstraint_enforce ::
  "llmath \<Rightarrow> (LLQuaternion \<Rightarrow> LLQuaternion) \<Rightarrow> enforce_fn \<Rightarrow> Constraint \<Rightarrow> joint_ptr \<Rightarrow> joint_heap
     \<Rightarrow> error + (bool \<times> joint_heap)" where
  "ElbowConstraint_enforce K computeAdjustedLocalRot enforce
       (ElbowConstraint mForward mPivotAxis mPivotXForward mMinBend mMaxBend mMinTwist mMaxTwist)
       elbow_joint h =
     (case mParent (h elbow_joint) of
        None \<Rightarrow> Constraint_enforce_at K computeAdjustedLocalRot elbow_joint h
      | Some shoulder_joint \<Rightarrow>
          (let shoulder = mPos (h shoulder_joint);
               elbow = mPos (h elbow_joint);
               wrist = computeWorldEndPos K (h elbow_joint);
               elbow_rot = mRot (h elbow_joint);
               lower_pivot = vec_rot K mPivotAxis elbow_rot;
               upper_pivot = vec_rot K mPivotAxis (mRot (h shoulder_joint));
               lower_arm = vec_normalize K (vec_sub K wrist elbow);
               upper_arm = vec_normalize K (vec_sub K elbow shoulder);
               bend_pivot0 = vec_cross K upper_arm lower_arm;
               length = vec_length K bend_pivot0;
               bend_pivot = (if length < MIN_PIVOT_LENGTH then upper_pivot
                             else vec_div K bend_pivot0 length);
               (angle0, axis) = getAngleAxis K (shortestArc K bend_pivot lower_pivot);
               angle = (if vec_dot K axis lower_arm < 0 then angle0 * (- 1) else angle0);
               new_twist = compute_clamped_angle angle mMinTwist mMaxTwist;
               twisted = (new_twist \<noteq> angle);
               h1 = (if twisted
                     then h(elbow_joint :=
                              setWorldRot
                                (quat_normalize K
                                   (quat_mul K elbow_rot (setAngleAxis K (new_twist - angle) lower_arm)))
                                (h elbow_joint))
                     else h);
               shoulder_rot = mRot (h1 shoulder_joint);
               adjustment = shortestArc K upper_pivot bend_pivot;
               aligned = almost_equal_angle K adjustment LLQuaternion_DEFAULT VERY_SMALL_ANGLE
           in case (if \<not> aligned then
                      (let h2 = h1(shoulder_joint :=
                                     setWorldRot (quat_normalize K (quat_mul K shoulder_rot adjustment))
                                       (h1 shoulder_joint))
                       in case mParent (h2 shoulder_joint) of
                            Some collar_joint \<Rightarrow>
                              map_sum id snd (updateLocalRot K enforce shoulder_joint False h2)
                          | None \<Rightarrow>
                              Inr (h2(shoulder_joint :=
                                        setLocalRot (mRot (h2 shoulder_joint)) (h2 shoulder_joint))))
                    else Inr h1) of
                Inl e \<Rightarrow> Inl e
              | Inr h3 \<Rightarrow>
                  if twisted \<or> \<not> aligned then
                    (case updateLocalRot K enforce elbow_joint False h3 of
                       Inl e \<Rightarrow> Inl e
                     | Inr (changed, h4) \<Rightarrow> Inr (True, h4))
                  else Inr (False, h3)))"

declare ElbowConstraint_enforce.simps [simp del]

subsection \<open>\<^verbatim>\<open>ElbowConstraint::computeAdjustedLocalRot\<close>\<close>

text \<open>
  Modelled from the C++ standard library: \<^verbatim>\<open>std::atan2\<close> on reals, the angle in \<open>(-\<pi>, \<pi>]\<close>
  of the point \<open>(x, y)\<close>, and \<open>0\<close> at the origin. \<^verbatim>\<open>std::cos\<close> and \<^verbatim>\<open>std::sin\<close> are \<^const>\<open>cos\<close>
  and \<^const>\<open>sin\<close>.
\<close>

definition atan2 :: "F32 \<Rightarrow> F32 \<Rightarrow> F32" where
  "atan2 y x =
     (if 0 < x then arctan (y / x)
      else if x < 0 then (if 0 \<le> y then arctan (y / x) + pi else arctan (y / x) - pi)
      else if 0 < y then pi / 2
      else if y < 0 then - (pi / 2)
      else 0)"

text \<open>
  The projection of the elbow. \<open>forward\<close> is computed once, from the rotation that comes
  in; the bend adjustment at the end takes its shortest arc from this \<open>forward\<close>, as the
  code does, and not from \<open>new_forward\<close>.
\<close>

fun ElbowConstraint_computeAdjustedLocalRot :: "llmath \<Rightarrow> Constraint \<Rightarrow> LLQuaternion \<Rightarrow> LLQuaternion" where
  "ElbowConstraint_computeAdjustedLocalRot K
       (ElbowConstraint mForward mPivotAxis mPivotXForward mMinBend mMaxBend mMinTwist mMaxTwist)
       joint_local_rot =
     (let forward = vec_rot K mForward joint_local_rot;
          projected_forward =
            vec_sub K forward (vec_scale K (vec_dot K forward mPivotAxis) mPivotAxis);
          adjustment = shortestArc K forward projected_forward;
          adjusted_local_rot = quat_mul K joint_local_rot adjustment;
          new_forward = vec_rot K mForward adjusted_local_rot;
          twisted_pivot = vec_rot K mPivotAxis adjusted_local_rot;
          cos_part = vec_dot K twisted_pivot mPivotAxis;
          sin_part = vec_dot K (vec_rot K mPivotXForward adjusted_local_rot) mPivotAxis;
          twist = atan2 sin_part cos_part;
          new_twist = compute_clamped_angle twist mMinTwist mMaxTwist;
          (adjusted_local_rot, new_forward) =
            (if new_twist \<noteq> twist then
               (let swung_left_axis = vec_cross K mPivotAxis new_forward;
                    new_twisted_pivot =
                      vec_sub K (vec_scale K (cos new_twist) mPivotAxis)
                                (vec_scale K (sin new_twist) swung_left_axis);
                    adjustment = shortestArc K twisted_pivot new_twisted_pivot;
                    adjusted_local_rot = quat_mul K adjusted_local_rot adjustment
                in (adjusted_local_rot, vec_rot K mForward adjusted_local_rot))
             else (adjusted_local_rot, new_forward));
          bend = atan2 (vec_dot K new_forward mPivotXForward) (vec_dot K new_forward mForward);
          new_bend = compute_clamped_angle bend mMinBend mMaxBend;
          adjusted_local_rot =
            (if new_bend \<noteq> bend then
               (let new_forward =
                      vec_add K (vec_scale K (cos new_bend) mForward)
                                (vec_scale K (sin new_bend) mPivotXForward);
                    adjustment = shortestArc K forward new_forward
                in quat_mul K adjusted_local_rot adjustment)
             else adjusted_local_rot)
      in quat_normalize K adjusted_local_rot)"

declare ElbowConstraint_computeAdjustedLocalRot.simps [simp del]

section \<open>A kernel over the reals\<close>

text \<open>
  Modelled from the spec: the math kernel of section 4.1 (3-vectors, unit quaternions,
  shortest arc, lerp with renormalisation, \<open>almost_equal\<close> up to sign), whose source
  (\<^verbatim>\<open>v3math.h\<close>, \<^verbatim>\<open>llquaternion.h\<close>) is missing. It instantiates the parameter \<open>K\<close> where a
  function is evaluated at a concrete input; no general theorem depends on it.
\<close>

definition real_vec_add :: "LLVector3 \<Rightarrow> LLVector3 \<Rightarrow> LLVector3" where
  "real_vec_add a b = vec3 (mV_VX a + mV_VX b) (mV_VY a + mV_VY b) (mV_VZ a + mV_VZ b)"

definition real_vec_sub :: "LLVector3 \<Rightarrow> LLVector3 \<Rightarrow> LLVector3" where
  "real_vec_sub a b = vec3 (mV_VX a - mV_VX b) (mV_VY a - mV_VY b) (mV_VZ a - mV_VZ b)"

definition real_vec_scale :: "F32 \<Rightarrow> LLVector3 \<Rightarrow> LLVector3" where
  "real_vec_scale k a = vec3 (k * mV_VX a) (k * mV_VY a) (k * mV_VZ a)"

definition real_vec_div :: "LLVector3 \<Rightarrow> F32 \<Rightarrow> LLVector3" where
  "real_vec_div a k = vec3 (mV_VX a / k) (mV_VY a / k) (mV_VZ a / k)"

definition real_vec_dot :: "LLVector3 \<Rightarrow> LLVector3 \<Rightarrow> F32" where
  "real_vec_dot a b = mV_VX a * mV_VX b + mV_VY a * mV_VY b + mV_VZ a * mV_VZ b"

definition real_vec_cross :: "LLVector3 \<Rightarrow> LLVector3 \<Rightarrow> LLVector3" where
  "real_vec_cross a b =
     vec3 (mV_VY a * mV_VZ b - mV_VZ a * mV_VY b)
          (mV_VZ a * mV_VX b - mV_VX a * mV_VZ b)
          (mV_VX a * mV_VY b - mV_VY a * mV_VX b)"

definition real_vec_length :: "LLVector3 \<Rightarrow> F32" where
  "real_vec_length a = sqrt (real_vec_dot a a)"

definition real_vec_normalize :: "LLVector3 \<Rightarrow> LLVector3" where
  "real_vec_normalize a =
     (if real_vec_length a = 0 then vec3 0 0 0 else real_vec_div a (real_vec_length a))"

definition real_quat_mul :: "LLQuaternion \<Rightarrow> LLQuaternion \<Rightarrow> LLQuaternion" where
  \<comment> \<open>\<open>a\<close> first, then \<open>b\<close>\<close>
  "real_quat_mul a b =
     quat (mQ_VW b * mQ_VX a + mQ_VX b * mQ_VW a + mQ_VY b * mQ_VZ a - mQ_VZ b * mQ_VY a)
          (mQ_VW b * mQ_VY a + mQ_VY b * mQ_VW a + mQ_VZ b * mQ_VX a - mQ_VX b * mQ_VZ a)
          (mQ_VW b * mQ_VZ a + mQ_VZ b * mQ_VW a + mQ_VX b * mQ_VY a - mQ_VY b * mQ_VX a)
          (mQ_VW b * mQ_VW a - mQ_VX b * mQ_VX a - mQ_VY b * mQ_VY a - mQ_VZ b * mQ_VZ a)"

definition real_quat_add :: "LLQuaternion \<Rightarrow> LLQuaternion \<Rightarrow> LLQuaternion" where
  "real_quat_add a b =
     quat (mQ_VX a + mQ_VX b) (mQ_VY a + mQ_VY b) (mQ_VZ a + mQ_VZ b) (mQ_VW a + mQ_VW b)"

definition real_quat_sub :: "LLQuaternion \<Rightarrow> LLQuaternion \<Rightarrow> LLQuaternion" where
  "real_quat_sub a b =
     quat (mQ_VX a - mQ_VX b) (mQ_VY a - mQ_VY b) (mQ_VZ a - mQ_VZ b) (mQ_VW a - mQ_VW b)"

definition real_quat_conjugate :: "LLQuaternion \<Rightarrow> LLQuaternion" where
  "real_quat_conjugate a = quat (- mQ_VX a) (- mQ_VY a) (- mQ_VZ a) (mQ_VW a)"

definition real_quat_length :: "LLQuaternion \<Rightarrow> F32" where
  "real_quat_length a = sqrt (mQ_VX a * mQ_VX a + mQ_VY a * mQ_VY a + mQ_VZ a * mQ_VZ a + mQ_VW a * mQ_VW a)"

definition real_quat_normalize :: "LLQuaternion \<Rightarrow> LLQuaternion" where
  "real_quat_normalize a =
     (let m = real_quat_length a
      in if m = 0 then LLQuaternion_DEFAULT
         else quat (mQ_VX a / m) (mQ_VY a / m) (mQ_VZ a / m) (mQ_VW a / m))"

definition real_vec_rot :: "LLVector3 \<Rightarrow> LLQuaternion \<Rightarrow> LLVector3" where
  "real_vec_rot v q =
     (let r = real_quat_mul (real_quat_mul (real_quat_conjugate q) (quat (mV_VX v) (mV_VY v) (mV_VZ v) 0)) q
      in vec3 (mQ_VX r) (mQ_VY r) (mQ_VZ r))"

definition real_shortestArc :: "LLVector3 \<Rightarrow> LLVector3 \<Rightarrow> LLQuaternion" where
  "real_shortestArc a b =
     (let u = real_vec_normalize a;
          v = real_vec_normalize b;
          c = real_vec_cross u v;
          d = real_vec_dot u v
      in if 0 < 1 + d then real_quat_normalize (quat (mV_VX c) (mV_VY c) (mV_VZ c) (1 + d))
         else (let p = real_vec_cross (vec3 1 0 0) u;
                   p' = (if real_vec_length p = 0 then real_vec_cross (vec3 0 1 0) u else p);
                   n = real_vec_normalize p'
               in quat (mV_VX n) (mV_VY n) (mV_VZ n) 0))"

definition real_getAngleAxis :: "LLQuaternion \<Rightarrow> F32 \<times> LLVector3" where
  "real_getAngleAxis q =
     (let v = vec3 (mQ_VX q) (mQ_VY q) (mQ_VZ q)
      in if real_vec_length v = 0 then (0, vec3 1 0 0)
         else (2 * arccos (mQ_VW q), real_vec_normalize v))"

definition real_setAngleAxis :: "F32 \<Rightarrow> LLVector3 \<Rightarrow> LLQuaternion" where
  "real_setAngleAxis angle axis =
     (let n = real_vec_normalize axis; s = sin (angle / 2)
      in quat (s * mV_VX n) (s * mV_VY n) (s * mV_VZ n) (cos (angle / 2)))"

definition real_lerp :: "F32 \<Rightarrow> LLQuaternion \<Rightarrow> LLQuaternion \<Rightarrow> LLQuaternion" where
  "real_lerp t p q =
     real_quat_normalize
       (quat ((1 - t) * mQ_VX p + t * mQ_VX q) ((1 - t) * mQ_VY p + t * mQ_VY q)
             ((1 - t) * mQ_VZ p + t * mQ_VZ q) ((1 - t) * mQ_VW p + t * mQ_VW q))"

definition real_almost_equal_angle :: "LLQuaternion \<Rightarrow> LLQuaternion \<Rightarrow> F32 \<Rightarrow> bool" where
  "real_almost_equal_angle a b eps =
     ((\<bar>mQ_VX a - mQ_VX b\<bar> < eps \<and> \<bar>mQ_VY a - mQ_VY b\<bar> < eps
        \<and> \<bar>mQ_VZ a - mQ_VZ b\<bar> < eps \<and> \<bar>mQ_VW a - mQ_VW b\<bar> < eps)
      \<or> (\<bar>mQ_VX a + mQ_VX b\<bar> < eps \<and> \<bar>mQ_VY a + mQ_VY b\<bar> < eps
        \<and> \<bar>mQ_VZ a + mQ_VZ b\<bar> < eps \<and> \<bar>mQ_VW a + mQ_VW b\<bar> < eps))"

definition real_math :: llmath where
  "real_math =
     \<lparr>vec_add = real_vec_add, vec_sub = real_vec_sub, vec_scale = real_vec_scale,
      vec_div = real_vec_div, vec_dot = real_vec_dot, vec_cross = real_vec_cross,
      vec_length = real_vec_length, vec_normalize = real_vec_normalize, vec_rot = real_vec_rot,
      scaledVec = (\<lambda>a b. vec3 (mV_VX a * mV_VX b) (mV_VY a * mV_VY b) (mV_VZ a * mV_VZ b)),
      dist_vec = (\<lambda>a b. real_vec_length (real_vec_sub a b)),
      quat_mul = real_quat_mul, quat_add = real_quat_add, quat_sub = real_quat_sub,
      quat_conjugate = real_quat_conjugate, quat_normalize = real_quat_normalize,
      shortestArc = real_shortestArc, getAngleAxis = real_getAngleAxis,
      setAngleAxis = real_setAngleAxis, lerp = real_lerp,
      almost_equal = (\<lambda>a b. real_almost_equal_angle a b 0.000001),
      almost_equal_angle = real_almost_equal_angle\<rparr>"

section \<open>Example data\<close>

text \<open>A config with the given flags and target position, and a skeleton of four joints:
  joint 0 is the root, joint 1 its child, joints 2 and 3 the children of joint 1.\<close>

definition example_config :: "U8 \<Rightarrow> LLVector3 \<Rightarrow> Config" where
  "example_config flags target_pos =
     \<lparr>Config_mLocalPos = vec3 0 0 0, Config_mLocalRot = LLQuaternion_DEFAULT,
      Config_mLocalScale = vec3 1 1 1, Config_mTargetPos = target_pos,
      Config_mTargetRot = LLQuaternion_DEFAULT, Config_mFlags = flags, Config_mChainLimit = 255\<rparr>"

definition example_joint :: "S16 \<Rightarrow> joint_ptr option \<Rightarrow> joint_ptr list \<Rightarrow> Joint" where
  "example_joint joint_id parent children =
     \<lparr>mChildren = children, mLocalPos = vec3 0 0 0, mPos = vec3 0 0 0,
      mLocalRot = LLQuaternion_DEFAULT, mRot = LLQuaternion_DEFAULT,
      mLocalScale = vec3 1 1 1, mBone = vec3 1 0 0, mParent = parent, mConstraint = None,
      mLocalPosLength = 0, mID = joint_id,
      mInfoPtr = \<lparr>getPosition = vec3 0 0 0, getEnd = vec3 1 0 0, getScale = vec3 1 1 1,
                  getJointNum = joint_id\<rparr>,
      mConfig = None, mConfigFlags = 0,
      mIkFlags = (if parent = None then IK_FLAG_LOCAL_ROT_LOCKED else 0)\<rparr>"

definition example_joints :: joint_heap where
  "example_joints p =
     (if p = 0 then example_joint 0 None [1]
      else if p = 1 then example_joint 1 (Some 0) [2, 3]
      else if p = 2 then example_joint 2 (Some 1) []
      else example_joint 3 (Some 1) [])"

definition example_solver :: Solver where
  "example_solver =
     \<lparr>mSkeleton = [(0, 0), (1, 1), (2, 2), (3, 3)], joints = example_joints,
      mJointConfigs = [], mChainMap = [], mSubBaseIds = {}, mSubRootIds = {},
      mActiveRoots = [], mActiveJoints = [], mWristJoints = [],
      mAcceptableError = 0.0005, mLastError = 0, mRootID = 0\<rparr>"

text \<open>The definition of an \<^verbatim>\<open>ACUTE_ELLIPSOIDAL_CONE\<close> with the given left extent, all other
  extents 1, forward axis \<open>x\<close> and up axis \<open>z\<close>.\<close>

definition example_cone_def :: "F32 \<Rightarrow> LLSD" where
  "example_cone_def left =
     \<lparr>LLSD_type = ''ACUTE_ELLIPSOIDAL_CONE'',
      LLSD_asReal = (\<lambda>key. if key = ''left'' then left
                            else if key \<in> {''forward'', ''up'', ''down'', ''right''} then 1 else 0),
      LLSD_asVector3 = (\<lambda>key. if key = ''forward_axis'' then vec3 1 0 0
                               else if key = ''up_axis'' then vec3 0 0 1 else vec3 0 0 0)\<rparr>"


text \<open>
  A heap for \<^verbatim>\<open>updateEndInward\<close>, with the joints 0 to 3 at the addresses 10 to 13:
  joint 1 has the rotation target \<open>(0,0,0,1)\<close> and the children 2 and 3. Joint 2 is active, turned half a turn about \<open>x\<close>, and constrained by
  a cone of angle 0 about \<open>z\<close>; joint 3 is not active and still has the world rotation
  that joint 1 had before.
\<close>

definition example_cone :: Constraint where
  "example_cone = SimpleCone (vec3 0 0 1) 0 1 0"

definition example_inward_joints :: joint_heap where
  "example_inward_joints p =
     (if p = 10 then example_joint 0 None [11]
      else if p = 11 then
        (example_joint 1 (Some 10) [12, 13])
          \<lparr>mRot := quat 0 (- 7 / 25) (24 / 25) 0,
           mConfig := Some ((example_config CONFIG_FLAG_TARGET_ROT (vec3 0 0 0))),
           mConfigFlags := CONFIG_FLAG_TARGET_ROT, mIkFlags := IK_FLAG_ACTIVE\<rparr>
      else if p = 12 then
        (example_joint 2 (Some 11) [])
          \<lparr>mRot := quat 1 0 0 0, mConstraint := Some example_cone, mIkFlags := IK_FLAG_ACTIVE\<rparr>
      else (example_joint 3 (Some 11) [])\<lparr>mRot := quat 0 (- 7 / 25) (24 / 25) 0\<rparr>)"

text \<open>The virtual \<^verbatim>\<open>enforce\<close> of a constraint that does not override it.\<close>

definition example_enforce :: enforce_fn where
  "example_enforce c p h =
     Constraint_enforce_at real_math (SimpleCone_computeAdjustedLocalRot real_math c) p h"


text \<open>
  A two-bone arm at the addresses 20 and 21: the shoulder is the root joint, at the
  origin in its rest orientation; the elbow is its child at \<open>(1,0,0)\<close>, turned half a
  turn about \<open>x\<close>, with a bone along \<open>y\<close> and an elbow constraint that bends about \<open>z\<close>.
\<close>

definition example_elbow :: Constraint where
  "example_elbow = ElbowConstraint (vec3 1 0 0) (vec3 0 0 1) (vec3 0 1 0) 0 2 (- 1) 1"

definition example_arm_joints :: joint_heap where
  "example_arm_joints p =
     (if p = 20 then example_joint 0 None [21]
      else (example_joint 1 (Some 20) [])
             \<lparr>mPos := vec3 1 0 0, mLocalPos := vec3 1 0 0, mBone := vec3 0 1 0,
              mRot := quat 1 0 0 0, mLocalRot := quat 1 0 0 0,
              mConstraint := Some example_elbow, mIkFlags := IK_FLAG_ACTIVE\<rparr>)"


text \<open>A config for joint 2 that sets a target position and a local scale.\<close>

definition example_scaled_config :: "LLVector3 \<Rightarrow> Config" where
  "example_scaled_config scale =
     (example_config (CONFIG_FLAG_TARGET_POS OR CONFIG_FLAG_LOCAL_SCALE) (vec3 1 0 0))
       \<lparr>Config_mLocalScale := scale\<rparr>"

text \<open>
  An elbow that bends about \<open>z\<close> between 0 and a quarter turn and twists between \<open>-2\<close> and
  \<open>2\<close> radians, and a unit rotation that tips its forward axis out of the hinge plane.
\<close>

definition example_hinge :: Constraint where
  "example_hinge = ElbowConstraint (vec3 1 0 0) (vec3 0 0 1) (vec3 0 1 0) 0 (F_PI / 2) (- 2) 2"

definition example_tipped_rot :: LLQuaternion where
  "example_tipped_rot = quat (12 / 25) (9 / 25) (- 16 / 25) (12 / 25)"

text \<open>The shortest arc from the forward axis of \<open>example_tipped_rot\<close> to \<open>(1, 0, 0)\<close>, and the
  results of projecting \<open>example_tipped_rot\<close> once and twice.\<close>

definition example_projected_rot :: LLQuaternion where
  "example_projected_rot = quat (2 * sqrt 2 / 5) (- (3 * sqrt 2 / 10)) (- (3 * sqrt 2 / 10)) (2 * sqrt 2 / 5)"

definition example_bend_arc :: LLQuaternion where
  "example_bend_arc = quat 0 (- (sqrt 2 / 2)) (7 * sqrt 2 / 50) (12 * sqrt 2 / 25)"

definition example_projected_twice :: LLQuaternion where
  "example_projected_twice = quat (sqrt 2 / 2) 0 0 (sqrt 2 / 2)"

section \<open>Notions used to state the properties\<close>

text \<open>The error and the state after \<open>k\<close> passes, starting with error \<open>fst x\<close> in state \<open>snd x\<close>.\<close>

definition after_passes :: "(Solver \<Rightarrow> F32 \<times> Solver) \<Rightarrow> nat \<Rightarrow> F32 \<times> Solver \<Rightarrow> F32 \<times> Solver" where
  "after_passes pass k x = ((\<lambda>y. pass (snd y)) ^^ k) x"

text \<open>
  The test that the loop body of \<^verbatim>\<open>updateJointConfigs\<close> makes on an old and a new config,
  read off the code: the flag sets are equal and each of the four fields that the code
  compares (target position, target rotation, local position, local rotation) is, where
  the old config carries it, within its tolerance. The local scale and the chain limit
  are not among them.
\<close>

definition compared_fields_within_tolerance :: "llmath \<Rightarrow> F32 \<Rightarrow> Config \<Rightarrow> Config \<Rightarrow> bool" where
  "compared_fields_within_tolerance K acceptable old_target new_target =
     (Config_getFlags new_target = Config_getFlags old_target
      \<and> (Config_hasTargetPos old_target \<longrightarrow>
           \<bar>dist_vec K (Config_mTargetPos old_target) (Config_mTargetPos new_target)\<bar> \<le> acceptable)
      \<and> (Config_hasTargetRot old_target \<longrightarrow>
           almost_equal K (Config_mTargetRot old_target) (Config_mTargetRot new_target))
      \<and> (Config_hasLocalPos old_target \<longrightarrow>
           \<bar>dist_vec K (Config_mLocalPos old_target) (Config_mLocalPos new_target)\<bar> \<le> acceptable)
      \<and> (Config_hasLocalRot old_target \<longrightarrow>
           almost_equal K (Config_mLocalRot old_target) (Config_mLocalRot new_target)))"

text \<open>
  The stop conditions of \<^verbatim>\<open>buildChain\<close>, as the code tests them on an ancestor: a sub-base
  is a joint of the caller's whitelist or, while that whitelist is empty, a joint with more
  than one child; \<open>stopped_at_sub_base\<close> says that the sub-base test was the one that
  stopped the walk. \<open>is_walk h joint path\<close>: \<open>path\<close> starts at \<open>joint\<close> and each
  further element is the parent of the one before.
\<close>

definition sub_base_stop :: "Solver \<Rightarrow> Joint \<Rightarrow> bool" where
  "sub_base_stop s j = ((mSubBaseIds s = {} \<and> getNumChildren j > 1) \<or> isSubBase s (mID j))"

definition chain_stop :: "Solver \<Rightarrow> Joint \<Rightarrow> bool" where
  "chain_stop s j =
     (isSubRoot s (mID j) \<or> mID j = mRootID s \<or> Joint_hasPosTarget j \<or> sub_base_stop s j)"

definition stopped_at_sub_base :: "Solver \<Rightarrow> Joint \<Rightarrow> bool" where
  "stopped_at_sub_base s j =
     (\<not> isSubRoot s (mID j) \<and> mID j \<noteq> mRootID s \<and> \<not> Joint_hasPosTarget j \<and> sub_base_stop s j)"

definition is_walk :: "joint_heap \<Rightarrow> joint_ptr option \<Rightarrow> joint_ptr list \<Rightarrow> bool" where
  "is_walk h joint path =
     (case path of
        [] \<Rightarrow> True
      | p # _ \<Rightarrow> joint = Some p
                 \<and> (\<forall>i. Suc i < length path \<longrightarrow> mParent (h (path ! i)) = Some (path ! Suc i)))"

text \<open>The sub-base as the claim words it: more than one child, or whitelisted.\<close>

definition claimed_sub_base :: "Solver \<Rightarrow> Joint \<Rightarrow> bool" where
  "claimed_sub_base s j = (getNumChildren j > 1 \<or> isSubBase s (mID j))"

text \<open>
  The rotation that the claim gives joint \<open>p\<close>: the sign-corrected sum of
  \<open>child.local_rot\<^sup>-\<^sup>1 \<cdot> child.rot\<close> over the active children, normalised.
\<close>

definition active_children_average :: "llmath \<Rightarrow> joint_ptr \<Rightarrow> joint_heap \<Rightarrow> LLQuaternion" where
  "active_children_average K p h =
     quat_normalize K
       (foldl (\<lambda>sum child.
                 (let rot = quat_mul K (quat_conjugate K (mLocalRot (h child))) (mRot (h child))
                  in if mQ_VW rot < 0 then quat_sub K sum rot else quat_add K sum rot))
          (quat 0 0 0 0)
          (filter (\<lambda>child. isActive (h child)) (mChildren (h p))))"

section \<open>Properties\<close>

subsection \<open>Angle limits\<close>

lemma pi_ge_three: "3 \<le> pi"
proof -
  have "sin (pi / 6) \<le> pi / 6" by (rule sin_x_le_x) simp
  then show ?thesis by (simp add: sin_30)
qed

lemma S32_cast_small_neg: "- 1 < x \<Longrightarrow> x \<le> 0 \<Longrightarrow> S32_cast x = 0"
  unfolding S32_cast_def by (auto simp: ceiling_eq_iff floor_eq_iff)

lemma remove_multiples_of_two_pi_minus_4: "remove_multiples_of_two_pi (- 4) = - 4"
proof -
  have "- 1 < (- 4) / F_TWO_PI" "(- 4) / F_TWO_PI \<le> 0"
    using pi_ge_three by (simp_all add: F_TWO_PI_def field_simps)
  then have "S32_cast ((- 4) / F_TWO_PI) = 0" by (rule S32_cast_small_neg)
  then show ?thesis by (simp add: remove_multiples_of_two_pi_def)
qed

lemma remove_multiples_of_two_pi_0: "remove_multiples_of_two_pi 0 = 0"
  by (simp add: remove_multiples_of_two_pi_def S32_cast_def)

lemma compute_angle_limits_ordered:
  "fst (compute_angle_limits a b) \<le> snd (compute_angle_limits a b)"
  by (simp add: compute_angle_limits_def Let_def)

text \<open>
  C8. \<^verbatim>\<open>compute_angle_limits\<close> is documented to bring both limits into \<open>[-\<pi>, \<pi>]\<close>. For the
  limits \<open>(-4, 0)\<close> it returns them as they are: \<^verbatim>\<open>remove_multiples_of_two_pi\<close> truncates
  \<open>-4 / 2\<pi>\<close> to \<open>0\<close>, only values above \<open>\<pi>\<close> are shifted, and \<open>-4\<close> lies below \<open>-\<pi>\<close>.
\<close>

theorem compute_angle_limits_below_range:
  "compute_angle_limits (- 4) 0 = (- 4, 0) \<and> fst (compute_angle_limits (- 4) 0) < - F_PI"
proof -
  have "\<not> (- 4 :: real) > F_PI" "\<not> (0 :: real) > F_PI"
    by (simp_all add: F_PI_def not_less order_trans [OF _ pi_ge_zero])
  then have "compute_angle_limits (- 4) 0 = (- 4, 0)"
    unfolding compute_angle_limits_def remove_multiples_of_two_pi_minus_4
      remove_multiples_of_two_pi_0 Let_def by simp
  moreover have "(- 4 :: real) < - F_PI"
    using pi_less_4 by (simp add: F_PI_def)
  ultimately show ?thesis by simp
qed

subsection \<open>The iteration loop of \<^verbatim>\<open>solve\<close>\<close>

lemma after_passes_0: "after_passes pass 0 x = x"
  by (simp add: after_passes_def)

lemma after_passes_Suc: "after_passes pass (Suc k) x = after_passes pass k (pass (snd x))"
  unfolding after_passes_def by (simp only: funpow_Suc_right o_apply)

lemma solve_loop_passes:
  assumes "loop \<le> MAX_SOLVER_ITERATIONS"
  shows "\<exists>n. loop \<le> n \<and> n \<le> MAX_SOLVER_ITERATIONS \<and> MIN_SOLVER_ITERATIONS \<le> n
           \<and> solve_loop (\<lambda>s. Inr (pass s)) loop e s = Inr (n, after_passes pass (n - loop) (e, s))
           \<and> (n < MAX_SOLVER_ITERATIONS \<longrightarrow>
                fst (after_passes pass (n - loop) (e, s))
                  \<le> mAcceptableError (snd (after_passes pass (n - loop) (e, s))))
           \<and> (\<forall>k. loop \<le> k \<and> MIN_SOLVER_ITERATIONS \<le> k \<and> k < n \<longrightarrow>
                mAcceptableError (snd (after_passes pass (k - loop) (e, s)))
                  < fst (after_passes pass (k - loop) (e, s)))"
  using assms
proof (induction "MAX_SOLVER_ITERATIONS - loop" arbitrary: loop e s)
  case 0
  then have eq: "loop = MAX_SOLVER_ITERATIONS" by simp
  have "solve_loop (\<lambda>s. Inr (pass s)) loop e s = Inr (loop, e, s)"
    by (subst solve_loop.simps) (simp add: eq MAX_SOLVER_ITERATIONS_def MIN_SOLVER_ITERATIONS_def)
  then show ?case
    by (intro exI [of _ loop])
       (simp add: eq after_passes_0 MAX_SOLVER_ITERATIONS_def MIN_SOLVER_ITERATIONS_def)
next
  case (Suc d)
  then have lt: "loop < MAX_SOLVER_ITERATIONS" by simp
  let ?C = "loop < MIN_SOLVER_ITERATIONS \<or> (loop < MAX_SOLVER_ITERATIONS \<and> e > mAcceptableError s)"
  show ?case
  proof (cases ?C)
    case True
    obtain e' s' where ps: "pass s = (e', s')" by (cases "pass s")
    have step: "solve_loop (\<lambda>s. Inr (pass s)) loop e s = solve_loop (\<lambda>s. Inr (pass s)) (Suc loop) e' s'"
      using True by (subst solve_loop.simps) (simp add: ps)
    have "d = MAX_SOLVER_ITERATIONS - Suc loop" "Suc loop \<le> MAX_SOLVER_ITERATIONS"
      using Suc.hyps(2) lt by simp_all
    from Suc.hyps(1) [OF this, of e' s']
    obtain n where n: "Suc loop \<le> n" "n \<le> MAX_SOLVER_ITERATIONS" "MIN_SOLVER_ITERATIONS \<le> n"
        "solve_loop (\<lambda>s. Inr (pass s)) (Suc loop) e' s' = Inr (n, after_passes pass (n - Suc loop) (e', s'))"
        "n < MAX_SOLVER_ITERATIONS \<longrightarrow>
           fst (after_passes pass (n - Suc loop) (e', s'))
             \<le> mAcceptableError (snd (after_passes pass (n - Suc loop) (e', s')))"
        "\<And>k. Suc loop \<le> k \<and> MIN_SOLVER_ITERATIONS \<le> k \<and> k < n \<Longrightarrow>
           mAcceptableError (snd (after_passes pass (k - Suc loop) (e', s')))
             < fst (after_passes pass (k - Suc loop) (e', s'))"
      by blast
    have shift: "after_passes pass (k - loop) (e, s) = after_passes pass (k - Suc loop) (e', s')"
      if "Suc loop \<le> k" for k
    proof -
      from that have "k - loop = Suc (k - Suc loop)" by simp
      then show ?thesis by (simp add: after_passes_Suc ps)
    qed
    have early: "mAcceptableError (snd (after_passes pass (k - loop) (e, s)))
                   < fst (after_passes pass (k - loop) (e, s))"
      if k: "loop \<le> k \<and> MIN_SOLVER_ITERATIONS \<le> k \<and> k < n" for k
    proof (cases "k = loop")
      case True
      with k \<open>?C\<close> show ?thesis by (simp add: after_passes_0)
    next
      case False
      with k have "Suc loop \<le> k" by simp
      with n(6) [of k] k show ?thesis by (simp add: shift)
    qed
    show ?thesis
      using n(1-5) early by (intro exI [of _ n]) (simp add: step shift)
  next
    case False
    then have ge: "MIN_SOLVER_ITERATIONS \<le> loop" and le: "e \<le> mAcceptableError s"
      using lt by simp_all
    have "solve_loop (\<lambda>s. Inr (pass s)) loop e s = Inr (loop, e, s)"
      using False by (subst solve_loop.simps) auto
    then show ?thesis
      using ge le lt by (intro exI [of _ loop]) (simp add: after_passes_0)
  qed
qed

text \<open>
  The loop control of \<^verbatim>\<open>solve\<close>, for passes that complete: \<^verbatim>\<open>solve\<close> returns after \<open>n\<close>
  passes with \<open>4 \<le> n \<le> 16\<close>; it returns (and stores in \<^verbatim>\<open>mLastError\<close>) the error measured
  by the last pass; when it stops before the sixteenth pass that error is at most
  \<^verbatim>\<open>mAcceptableError\<close>; and it does not stop after \<open>k \<ge> 4\<close> passes while the error measured
  by pass \<open>k\<close> exceeds it.
\<close>

lemma solve_loop_control:
  "\<exists>n. MIN_SOLVER_ITERATIONS \<le> n \<and> n \<le> MAX_SOLVER_ITERATIONS
      \<and> (let s2 = fold (\<lambda>root. relax root INITIAL_RELAXATION_FACTOR) (mActiveRoots (rebuild s)) (rebuild s);
              final = after_passes pass n (F32_MAX, s2)
          in solve rebuild relax (\<lambda>s. Inr (pass s)) s
               = Inr (n, fst final, (snd final)\<lparr>mLastError := fst final\<rparr>)
             \<and> (n < MAX_SOLVER_ITERATIONS \<longrightarrow> fst final \<le> mAcceptableError (snd final))
             \<and> (\<forall>k. MIN_SOLVER_ITERATIONS \<le> k \<and> k < n \<longrightarrow>
                   mAcceptableError (snd (after_passes pass k (F32_MAX, s2)))
                     < fst (after_passes pass k (F32_MAX, s2))))"
proof -
  define s2 where "s2 = fold (\<lambda>root. relax root INITIAL_RELAXATION_FACTOR) (mActiveRoots (rebuild s)) (rebuild s)"
  from solve_loop_passes [of 0 pass F32_MAX s2]
  obtain n where n: "n \<le> MAX_SOLVER_ITERATIONS" "MIN_SOLVER_ITERATIONS \<le> n"
      "solve_loop (\<lambda>s. Inr (pass s)) 0 F32_MAX s2 = Inr (n, after_passes pass n (F32_MAX, s2))"
      "n < MAX_SOLVER_ITERATIONS \<longrightarrow>
         fst (after_passes pass n (F32_MAX, s2)) \<le> mAcceptableError (snd (after_passes pass n (F32_MAX, s2)))"
      "\<forall>k. MIN_SOLVER_ITERATIONS \<le> k \<and> k < n \<longrightarrow>
         mAcceptableError (snd (after_passes pass k (F32_MAX, s2))) < fst (after_passes pass k (F32_MAX, s2))"
    by auto
  have "solve rebuild relax (\<lambda>s. Inr (pass s)) s
          = Inr (n, fst (after_passes pass n (F32_MAX, s2)),
                 (snd (after_passes pass n (F32_MAX, s2)))\<lparr>mLastError := fst (after_passes pass n (F32_MAX, s2))\<rparr>)"
    unfolding solve_def Let_def s2_def [symmetric] n(3) by (simp add: case_prod_beta)
  with n show ?thesis
    unfolding Let_def s2_def [symmetric] by (intro exI [of _ n]) simp
qed

lemma solve_first_pass_faults:
  assumes "pass (fold (\<lambda>root. relax root INITIAL_RELAXATION_FACTOR) (mActiveRoots (rebuild s)) (rebuild s)) = Inl e"
  shows "solve rebuild relax pass s = Inl e"
  unfolding solve_def Let_def
  by (subst solve_loop.simps) (simp add: assms MIN_SOLVER_ITERATIONS_def)

text \<open>
  C3 (every call to \<^verbatim>\<open>solve\<close> runs its passes and returns the error of the last one): not
  when a config names a joint id that the skeleton does not have. With the config
  \<open>{7: target position}\<close> on the skeleton of joints 0 to 3 \<^verbatim>\<open>rebuildAllChains\<close> skips the
  entry, so there are no chains and no active roots and the pass has nothing to move; the
  first \<^verbatim>\<open>solveOnce\<close> then faults in \<^verbatim>\<open>measureMaxError\<close>, and \<^verbatim>\<open>solve\<close> returns no error
  value at all.
\<close>

theorem solve_faults_in_first_pass:
  "solveOnce real_math (\<lambda>enforce_constraints s. s)
        (example_solver\<lparr>mJointConfigs := [(7, example_config CONFIG_FLAG_TARGET_POS (vec3 1 0 0))]\<rparr>)
     = Inl NullPointerDereference
   \<and> solve id (\<lambda>root t s. s) (solveOnce real_math (\<lambda>enforce_constraints s. s))
        (example_solver\<lparr>mJointConfigs := [(7, example_config CONFIG_FLAG_TARGET_POS (vec3 1 0 0))]\<rparr>)
     = Inl NullPointerDereference
   \<and> (\<nexists>loop max_error s'.
        solve id (\<lambda>root t s. s) (solveOnce real_math (\<lambda>enforce_constraints s. s))
          (example_solver\<lparr>mJointConfigs := [(7, example_config CONFIG_FLAG_TARGET_POS (vec3 1 0 0))]\<rparr>)
        = Inr (loop, max_error, s'))"
proof -
  let ?S = "example_solver\<lparr>mJointConfigs := [(7, example_config CONFIG_FLAG_TARGET_POS (vec3 1 0 0))]\<rparr>"
  have "measureMaxError real_math ?S = Inl NullPointerDereference"
    by (simp add: measureMaxError_def example_solver_def example_config_def Config_hasTargetPos_def
          Config_hasDelegated_def CONFIG_FLAG_TARGET_POS_def CONFIG_FLAG_HAS_DELEGATED_def)
  then have once: "solveOnce real_math (\<lambda>enforce_constraints s. s) ?S = Inl NullPointerDereference"
    by (simp add: solveOnce_def)
  then have "solve id (\<lambda>root t s. s) (solveOnce real_math (\<lambda>enforce_constraints s. s)) ?S
               = Inl NullPointerDereference"
    by (intro solve_first_pass_faults) (simp add: example_solver_def)
  with once show ?thesis by simp
qed

subsection \<open>\<^verbatim>\<open>updateJointConfigs\<close>\<close>

lemma configs_changed_iff:
  "(\<not> configs_changed K acceptable configs olds) =
     (\<forall>(joint_id, old_target) \<in> set olds.
        \<exists>new_target. map_of configs joint_id = Some new_target
                      \<and> compared_fields_within_tolerance K acceptable old_target new_target)"
proof (induction olds)
  case Nil
  show ?case by simp
next
  case (Cons a olds)
  obtain joint_id old_target where a: "a = (joint_id, old_target)" by (cases a)
  show ?case
  proof (cases "map_of configs joint_id")
    case None
    then show ?thesis by (simp add: a)
  next
    case (Some new_target)
    have "(\<not> configs_changed K acceptable configs (a # olds)) =
            (compared_fields_within_tolerance K acceptable old_target new_target
             \<and> \<not> configs_changed K acceptable configs olds)"
      by (auto simp: a Some Let_def compared_fields_within_tolerance_def Config_hasTargetPos_def
            Config_hasTargetRot_def Config_hasLocalPos_def Config_hasLocalRot_def
            Config_getFlags_def not_less)
    then show ?thesis by (simp add: a Some Cons.IH)
  qed
qed

lemma same_keys_iff:
  assumes "distinct (map fst xs)" "distinct (map fst ys)"
  shows "(length xs = length ys \<and> fst ` set ys \<subseteq> fst ` set xs) = (fst ` set xs = fst ` set ys)"
proof
  assume h: "length xs = length ys \<and> fst ` set ys \<subseteq> fst ` set xs"
  have "card (fst ` set xs) = length xs" "card (fst ` set ys) = length ys"
    using assms distinct_card [of "map fst xs"] distinct_card [of "map fst ys"] by simp_all
  with h have "card (fst ` set xs) \<le> card (fst ` set ys)" by simp
  with h show "fst ` set xs = fst ` set ys"
    by (metis List.finite_set card_seteq finite_imageI)
next
  assume h: "fst ` set xs = fst ` set ys"
  have "card (fst ` set xs) = length xs" "card (fst ` set ys) = length ys"
    using assms distinct_card [of "map fst xs"] distinct_card [of "map fst ys"] by simp_all
  with h show "length xs = length ys \<and> fst ` set ys \<subseteq> fst ` set xs" by simp
qed

lemma found_iff:
  "(\<forall>(joint_id, old_target) \<in> set olds.
       \<exists>new_target. map_of configs joint_id = Some new_target \<and> P old_target new_target)
   = (fst ` set olds \<subseteq> fst ` set configs
      \<and> (\<forall>(joint_id, old_target) \<in> set olds.
           \<forall>new_target. map_of configs joint_id = Some new_target \<longrightarrow> P old_target new_target))"
  (is "?L = ?R")
proof
  assume l: ?L
  have "fst ` set olds \<subseteq> fst ` set configs"
  proof
    fix joint_id assume "joint_id \<in> fst ` set olds"
    then obtain old_target where "(joint_id, old_target) \<in> set olds" by auto
    with l obtain new_target where "map_of configs joint_id = Some new_target" by blast
    then have "(joint_id, new_target) \<in> set configs" by (rule map_of_SomeD)
    then show "joint_id \<in> fst ` set configs" by force
  qed
  moreover have "\<forall>(joint_id, old_target) \<in> set olds.
           \<forall>new_target. map_of configs joint_id = Some new_target \<longrightarrow> P old_target new_target"
  proof (clarify)
    fix joint_id old_target new_target
    assume "(joint_id, old_target) \<in> set olds" "map_of configs joint_id = Some new_target"
    with l show "P old_target new_target" by force
  qed
  ultimately show ?R by simp
next
  assume r: ?R
  show ?L
  proof (clarify)
    fix joint_id old_target
    assume m: "(joint_id, old_target) \<in> set olds"
    with r have "joint_id \<in> fst ` set configs" by force
    then have "joint_id \<in> dom (map_of configs)" by (simp add: dom_map_of_conv_image_fst)
    then obtain new_target where n: "map_of configs joint_id = Some new_target" by blast
    with r m have "P old_target new_target" by blast
    with n show "\<exists>new_target. map_of configs joint_id = Some new_target \<and> P old_target new_target"
      by simp
  qed
qed

text \<open>
  What \<^verbatim>\<open>updateJointConfigs\<close> decides, for config maps with distinct keys (\<^verbatim>\<open>std::map\<close>): it
  returns false exactly when the new map has the same joint ids as the cached one and every
  cached entry passes the test above against the new entry. When it returns true the
  cached map becomes the new map; when it returns false the solver is unchanged.
\<close>

lemma updateJointConfigs_false_iff_compared:
  assumes "distinct (map fst configs)" and "distinct (map fst (mJointConfigs s))"
  shows "(\<not> fst (updateJointConfigs K configs s)) =
           (fst ` set configs = fst ` set (mJointConfigs s)
            \<and> (\<forall>(joint_id, old_target) \<in> set (mJointConfigs s).
                 \<forall>new_target. map_of configs joint_id = Some new_target \<longrightarrow>
                   compared_fields_within_tolerance K (mAcceptableError s) old_target new_target))
         \<and> snd (updateJointConfigs K configs s)
             = (if fst (updateJointConfigs K configs s) then s\<lparr>mJointConfigs := configs\<rparr> else s)"
proof -
  let ?olds = "mJointConfigs s"
  let ?W = "\<forall>(joint_id, old_target) \<in> set ?olds.
                 \<forall>new_target. map_of configs joint_id = Some new_target \<longrightarrow>
                   compared_fields_within_tolerance K (mAcceptableError s) old_target new_target"
  have keys: "(length configs = length ?olds \<and> fst ` set ?olds \<subseteq> fst ` set configs)
                = (fst ` set configs = fst ` set ?olds)"
    by (rule same_keys_iff [OF assms])
  have "(\<not> fst (updateJointConfigs K configs s)) =
          (length configs = length ?olds \<and> \<not> configs_changed K (mAcceptableError s) configs ?olds)"
    by (simp add: updateJointConfigs_def Let_def)
  also have "\<dots> = (length configs = length ?olds \<and> fst ` set ?olds \<subseteq> fst ` set configs \<and> ?W)"
    by (simp only: configs_changed_iff found_iff)
  also have "\<dots> = (fst ` set configs = fst ` set ?olds \<and> ?W)"
    by (simp only: keys [symmetric] conj_assoc)
  finally have main: "(\<not> fst (updateJointConfigs K configs s)) = (fst ` set configs = fst ` set ?olds \<and> ?W)" .
  have "snd (updateJointConfigs K configs s)
          = (if fst (updateJointConfigs K configs s) then s\<lparr>mJointConfigs := configs\<rparr> else s)"
    by (simp add: updateJointConfigs_def Let_def)
  with main show ?thesis by (simp only: simp_thms)
qed

lemma example_scale_distance:
  "mAcceptableError example_solver
     < dist_vec real_math (vec3 1 1 1) (vec3 100 100 100)"
proof -
  have "(1 :: real) < sqrt 29403" by (rule real_less_rsqrt) simp
  then have "(1 :: real) < sqrt 29403 * 2000" by linarith
  then show ?thesis
    by (simp add: example_solver_def real_math_def real_vec_length_def real_vec_sub_def
          real_vec_dot_def)
qed

text \<open>
  C1 (\<^verbatim>\<open>updateJointConfigs\<close> returns false only when every configured field is within
  tolerance): not so for the local scale. The cached and the new map hold one entry for
  joint 2 with the same flags, \<^verbatim>\<open>CONFIG_FLAG_LOCAL_SCALE\<close> among them; the local scale goes
  from \<open>(1,1,1)\<close> to \<open>(100,100,100)\<close>, a distance far above \<^verbatim>\<open>mAcceptableError\<close>, and
  \<^verbatim>\<open>updateJointConfigs\<close> returns false and keeps the cached map. The same happens when only
  the chain limit changes, from 255 to 1.
\<close>

theorem updateJointConfigs_misses_local_scale:
  "updateJointConfigs real_math [(2, example_scaled_config (vec3 100 100 100))]
        (example_solver\<lparr>mJointConfigs := [(2, example_scaled_config (vec3 1 1 1))]\<rparr>)
     = (False, example_solver\<lparr>mJointConfigs := [(2, example_scaled_config (vec3 1 1 1))]\<rparr>)
   \<and> Config_hasLocalScale (example_scaled_config (vec3 1 1 1))
   \<and> Config_hasLocalScale (example_scaled_config (vec3 100 100 100))
   \<and> mAcceptableError example_solver
        < dist_vec real_math (Config_mLocalScale (example_scaled_config (vec3 1 1 1)))
                             (Config_mLocalScale (example_scaled_config (vec3 100 100 100)))
   \<and> updateJointConfigs real_math
        [(2, (example_config CONFIG_FLAG_TARGET_POS (vec3 1 0 0))\<lparr>Config_mChainLimit := 1\<rparr>)]
        (example_solver\<lparr>mJointConfigs := [(2, example_config CONFIG_FLAG_TARGET_POS (vec3 1 0 0))]\<rparr>)
     = (False, example_solver\<lparr>mJointConfigs := [(2, example_config CONFIG_FLAG_TARGET_POS (vec3 1 0 0))]\<rparr>)"
proof -
  have a: "updateJointConfigs real_math [(2, example_scaled_config (vec3 100 100 100))]
        (example_solver\<lparr>mJointConfigs := [(2, example_scaled_config (vec3 1 1 1))]\<rparr>)
     = (False, example_solver\<lparr>mJointConfigs := [(2, example_scaled_config (vec3 1 1 1))]\<rparr>)"
    by (simp add: updateJointConfigs_def example_scaled_config_def example_config_def
          example_solver_def Config_getFlags_def real_math_def real_vec_length_def
          real_vec_sub_def real_vec_dot_def real_almost_equal_angle_def LLQuaternion_DEFAULT_def
          CONFIG_FLAG_TARGET_POS_def CONFIG_FLAG_LOCAL_SCALE_def CONFIG_FLAG_TARGET_ROT_def
          CONFIG_FLAG_LOCAL_POS_def CONFIG_FLAG_LOCAL_ROT_def)
  have b: "Config_hasLocalScale (example_scaled_config s)" for s
    by (simp add: Config_hasLocalScale_def example_scaled_config_def example_config_def
          CONFIG_FLAG_TARGET_POS_def CONFIG_FLAG_LOCAL_SCALE_def)
  have c: "Config_mLocalScale (example_scaled_config s) = s" for s
    by (simp add: example_scaled_config_def)
  have d: "updateJointConfigs real_math
        [(2, (example_config CONFIG_FLAG_TARGET_POS (vec3 1 0 0))\<lparr>Config_mChainLimit := 1\<rparr>)]
        (example_solver\<lparr>mJointConfigs := [(2, example_config CONFIG_FLAG_TARGET_POS (vec3 1 0 0))]\<rparr>)
     = (False, example_solver\<lparr>mJointConfigs := [(2, example_config CONFIG_FLAG_TARGET_POS (vec3 1 0 0))]\<rparr>)"
    by (simp add: updateJointConfigs_def example_config_def
          example_solver_def Config_getFlags_def real_math_def real_vec_length_def
          real_vec_sub_def real_vec_dot_def real_almost_equal_angle_def LLQuaternion_DEFAULT_def
          CONFIG_FLAG_TARGET_POS_def CONFIG_FLAG_LOCAL_SCALE_def CONFIG_FLAG_TARGET_ROT_def
          CONFIG_FLAG_LOCAL_POS_def CONFIG_FLAG_LOCAL_ROT_def)
  show ?thesis
    using a d example_scale_distance by (simp only: b c simp_thms)
qed

subsection \<open>Unknown joint ids\<close>

lemma getJointWorldRot_unknown:
  "map_of (mSkeleton s) joint_id = None \<Longrightarrow> getJointWorldRot s joint_id = LLQuaternion_DEFAULT"
  by (simp add: getJointWorldRot_def)

lemma measureMaxError_loop_faults:
  assumes "(joint_id, target) \<in> set configs" "joint_id \<noteq> mRootID s"
    and "Config_hasTargetPos target" "\<not> Config_hasDelegated target"
    and "map_of (mSkeleton s) joint_id = None"
  shows "measureMaxError_loop K s configs max_error = Inl NullPointerDereference"
  using assms
proof (induction configs arbitrary: max_error)
  case Nil
  then show ?case by simp
next
  case (Cons a configs)
  obtain i t where a: "a = (i, t)" by (cases a)
  show ?case
  proof (cases "(joint_id, target) = a")
    case True
    with Cons.prems a show ?thesis by simp
  next
    case False
    with Cons.prems have "(joint_id, target) \<in> set configs" by simp
    from Cons.IH [OF this Cons.prems(2-5)]
    have ih: "\<And>e. measureMaxError_loop K s configs e = Inl NullPointerDereference" .
    show ?thesis
      by (cases "map_of (mSkeleton s) i") (simp_all add: a ih Let_def)
  qed
qed

text \<open>
  C10. A config names joint id 7, which the skeleton does not have, with a position
  target. \<^verbatim>\<open>getJointWorldRot\<close> returns the default rotation for that id, but
  \<^verbatim>\<open>measureMaxError\<close> looks the id up with \<^verbatim>\<open>operator[]\<close> and dereferences the null pointer
  it gets, and \<^verbatim>\<open>solve\<close>, which measures the error after its first pass, faults with it.
\<close>

theorem measureMaxError_unknown_joint_faults:
  "measureMaxError real_math
      (example_solver\<lparr>mJointConfigs := [(7, example_config CONFIG_FLAG_TARGET_POS (vec3 1 0 0))]\<rparr>)
     = Inl NullPointerDereference
   \<and> solve id (\<lambda>root t s. s) (solveOnce real_math (\<lambda>enforce_constraints s. s))
        (example_solver\<lparr>mJointConfigs := [(7, example_config CONFIG_FLAG_TARGET_POS (vec3 1 0 0))]\<rparr>)
     = Inl NullPointerDereference
   \<and> getJointWorldRot
        (example_solver\<lparr>mJointConfigs := [(7, example_config CONFIG_FLAG_TARGET_POS (vec3 1 0 0))]\<rparr>) 7
     = LLQuaternion_DEFAULT"
proof -
  let ?S = "example_solver\<lparr>mJointConfigs := [(7, example_config CONFIG_FLAG_TARGET_POS (vec3 1 0 0))]\<rparr>"
  have m: "measureMaxError real_math ?S = Inl NullPointerDereference"
    by (simp add: measureMaxError_def example_solver_def example_config_def Config_hasTargetPos_def
          Config_hasDelegated_def CONFIG_FLAG_TARGET_POS_def CONFIG_FLAG_HAS_DELEGATED_def)
  then have "solveOnce real_math (\<lambda>enforce_constraints s. s) ?S = Inl NullPointerDereference"
    by (simp add: solveOnce_def)
  then have "solve id (\<lambda>root t s. s) (solveOnce real_math (\<lambda>enforce_constraints s. s)) ?S
               = Inl NullPointerDereference"
    by (intro solve_first_pass_faults) (simp add: example_solver_def)
  moreover have "getJointWorldRot ?S 7 = LLQuaternion_DEFAULT"
    by (simp add: getJointWorldRot_def example_solver_def)
  ultimately show ?thesis using m by simp
qed

subsection \<open>\<^verbatim>\<open>buildChain\<close>\<close>

lemma activate_idem: "activate (activate j) = activate j"
  by (simp add: activate_def or.assoc)

lemma activate_frame:
  "mParent (activate j) = mParent j" "mID (activate j) = mID j"
  "mConfigFlags (activate j) = mConfigFlags j" "mChildren (activate j) = mChildren j"
  by (simp_all add: activate_def)

lemma activate_stop:
  "chain_stop s (activate j) = chain_stop s j"
  "stopped_at_sub_base s (activate j) = stopped_at_sub_base s j"
  by (simp_all add: chain_stop_def stopped_at_sub_base_def sub_base_stop_def activate_frame
        Joint_hasPosTarget_def getNumChildren_def)

lemma buildChain_loop_None:
  "buildChain_loop s None chain sub_bases chain_length h = (chain, sub_bases, h)"
  by (subst buildChain_loop.simps) simp

lemma buildChain_loop_full:
  "\<not> length chain < chain_length \<Longrightarrow>
     buildChain_loop s (Some p) chain sub_bases chain_length h = (chain, sub_bases, h)"
  by (subst buildChain_loop.simps) simp

lemma buildChain_loop_stop:
  "length chain < chain_length \<Longrightarrow> chain_stop s (h p) \<Longrightarrow>
     buildChain_loop s (Some p) chain sub_bases chain_length h =
       (chain @ [p],
        if stopped_at_sub_base s (h p) then insert (mID (h p)) sub_bases else sub_bases,
        h(p := activate (h p)))"
  by (subst buildChain_loop.simps)
     (auto simp: Let_def chain_stop_def stopped_at_sub_base_def sub_base_stop_def activate_frame
        Joint_hasPosTarget_def getNumChildren_def)

lemma buildChain_loop_step:
  "length chain < chain_length \<Longrightarrow> \<not> chain_stop s (h p) \<Longrightarrow>
     buildChain_loop s (Some p) chain sub_bases chain_length h =
       buildChain_loop s (mParent (h p)) (chain @ [p]) sub_bases chain_length (h(p := activate (h p)))"
  by (subst buildChain_loop.simps)
     (auto simp: Let_def chain_stop_def stopped_at_sub_base_def sub_base_stop_def activate_frame
        Joint_hasPosTarget_def getNumChildren_def)

lemma upd_frame:
  "mParent ((h(p := activate (h p))) q) = mParent (h q)"
  "mID ((h(p := activate (h p))) q) = mID (h q)"
  "chain_stop s ((h(p := activate (h p))) q) = chain_stop s (h q)"
  "stopped_at_sub_base s ((h(p := activate (h p))) q) = stopped_at_sub_base s (h q)"
  "activate ((h(p := activate (h p))) q) = activate (h q)"
  by (simp_all add: activate_frame activate_stop activate_idem)

lemma is_walk_upd: "is_walk (h(p := activate (h p))) joint path = is_walk h joint path"
  unfolding is_walk_def upd_frame ..

lemma is_walk_Cons:
  "is_walk h (mParent (h p)) path \<Longrightarrow> is_walk h (Some p) (p # path)"
  unfolding is_walk_def
  by (cases path) (auto simp: nth_Cons split: nat.splits)

lemma buildChain_loop_walk:
  assumes "buildChain_loop s joint chain sub_bases chain_length h = (chain', sub_bases', h')"
  shows "\<exists>path. chain' = chain @ path
      \<and> is_walk h joint path
      \<and> (\<forall>q. h' q = (if q \<in> set path then activate (h q) else h q))
      \<and> (\<forall>q \<in> set (butlast path). \<not> chain_stop s (h q))
      \<and> (path \<noteq> [] \<longrightarrow> length chain' \<le> chain_length)
      \<and> (path \<noteq> [] \<longrightarrow> chain_stop s (h (last path)) \<or> mParent (h (last path)) = None
                          \<or> chain_length \<le> length chain')
      \<and> (path = [] \<longrightarrow> joint = None \<or> chain_length \<le> length chain)
      \<and> sub_bases' = (if path \<noteq> [] \<and> stopped_at_sub_base s (h (last path))
                       then insert (mID (h (last path))) sub_bases else sub_bases)"
  using assms
proof (induction "chain_length - length chain" arbitrary: joint chain h)
  case 0
  then have full: "\<not> length chain < chain_length" by simp
  from 0 have "chain' = chain \<and> sub_bases' = sub_bases \<and> h' = h"
    by (cases joint) (simp_all add: buildChain_loop_None buildChain_loop_full [OF full])
  with full show ?case
    by (intro exI [of _ "[]"]) (simp add: is_walk_def)
next
  case (Suc d)
  then have lt: "length chain < chain_length" by simp
  show ?case
  proof (cases joint)
    case None
    with Suc.prems have "chain' = chain \<and> sub_bases' = sub_bases \<and> h' = h"
      by (simp add: buildChain_loop_None)
    with None show ?thesis
      by (intro exI [of _ "[]"]) (simp add: is_walk_def)
  next
    case (Some p)
    show ?thesis
    proof (cases "chain_stop s (h p)")
      case True
      from Suc.prems have
        "chain' = chain @ [p]"
        "sub_bases' = (if stopped_at_sub_base s (h p) then insert (mID (h p)) sub_bases else sub_bases)"
        "h' = h(p := activate (h p))"
        by (simp_all add: Some buildChain_loop_stop [where h = h and p = p, OF lt True])
      with True Some lt show ?thesis
        by (intro exI [of _ "[p]"]) (simp add: is_walk_def)
    next
      case False
      let ?h1 = "h(p := activate (h p))"
      from Suc.prems have rec:
        "buildChain_loop s (mParent (h p)) (chain @ [p]) sub_bases chain_length ?h1
           = (chain', sub_bases', h')"
        by (simp add: Some buildChain_loop_step [where h = h and p = p, OF lt False])
      have d: "d = chain_length - length (chain @ [p])" using Suc.hyps(2) by simp
      from Suc.hyps(1) [OF d rec] obtain path where path:
        "chain' = (chain @ [p]) @ path"
        "is_walk ?h1 (mParent (h p)) path"
        "\<forall>q. h' q = (if q \<in> set path then activate (?h1 q) else ?h1 q)"
        "\<forall>q \<in> set (butlast path). \<not> chain_stop s (?h1 q)"
        "path \<noteq> [] \<longrightarrow> chain_stop s (?h1 (last path)) \<or> mParent (?h1 (last path)) = None
                          \<or> chain_length \<le> length chain'"
        "path = [] \<longrightarrow> mParent (h p) = None \<or> chain_length \<le> length (chain @ [p])"
        "sub_bases' = (if path \<noteq> [] \<and> stopped_at_sub_base s (?h1 (last path))
                       then insert (mID (?h1 (last path))) sub_bases else sub_bases)"
        "path \<noteq> [] \<longrightarrow> length chain' \<le> chain_length"
        by blast
      have nsb: "\<not> stopped_at_sub_base s (h p)"
        using False by (simp add: chain_stop_def stopped_at_sub_base_def)
      have c1: "chain' = chain @ (p # path)" using path(1) by simp
      have c2: "is_walk h joint (p # path)"
        using path(2) unfolding Some is_walk_upd by (rule is_walk_Cons)
      have c3: "\<forall>q. h' q = (if q \<in> set (p # path) then activate (h q) else h q)"
        using path(3) by (auto simp: activate_idem)
      have c4: "\<forall>q \<in> set (butlast (p # path)). \<not> chain_stop s (h q)"
        using path(4) False unfolding upd_frame by simp
      have c5: "chain_stop s (h (last (p # path))) \<or> mParent (h (last (p # path))) = None
                  \<or> chain_length \<le> length chain'"
        using path(5,6) c1 unfolding upd_frame by (cases "path = []") simp_all
      have c7: "sub_bases' = (if stopped_at_sub_base s (h (last (p # path)))
                       then insert (mID (h (last (p # path)))) sub_bases else sub_bases)"
        using path(7) nsb unfolding upd_frame by (cases "path = []") simp_all
      have c8: "length chain' \<le> chain_length"
        using path(8) c1 lt by (cases "path = []") simp_all
      show ?thesis
        using c1 c2 c3 c4 c5 c7 c8 by (intro exI [of _ "p # path"]) simp
    qed
  qed
qed

text \<open>
  The conditions that the next theorem states of the walk leave no choice: two walks from
  the same joint that both keep within the limit, pass no stop before their last joint and
  end for one of the three reasons are the same walk. Here \<open>n\<close> is the length of the chain
  with the seed and \<open>L\<close> the limit.
\<close>

lemma is_walk_nth:
  assumes "is_walk h start p1" "is_walk h start p2" "i < length p1" "i < length p2"
  shows "p1 ! i = p2 ! i"
  using assms(3,4)
proof (induction i)
  case 0
  with assms(1,2) show ?case
    by (cases p1; cases p2) (simp_all add: is_walk_def)
next
  case (Suc i)
  then have "p1 ! i = p2 ! i" by simp
  moreover from assms(1) Suc.prems(1) have "mParent (h (p1 ! i)) = Some (p1 ! Suc i)"
    by (cases p1) (simp_all add: is_walk_def)
  moreover from assms(2) Suc.prems(2) have "mParent (h (p2 ! i)) = Some (p2 ! Suc i)"
    by (cases p2) (simp_all add: is_walk_def)
  ultimately show ?case by simp
qed

lemma walk_not_longer:
  assumes w1: "is_walk h start p1" and w2: "is_walk h start p2"
    and open2: "\<forall>q \<in> set (butlast p2). \<not> stop q"
    and bound2: "p2 \<noteq> [] \<longrightarrow> n + length p2 \<le> L"
    and end1: "p1 \<noteq> [] \<longrightarrow> stop (last p1) \<or> mParent (h (last p1)) = None \<or> L \<le> n + length p1"
    and none1: "p1 = [] \<longrightarrow> start = None \<or> L \<le> n"
  shows "length p2 \<le> length p1"
proof (rule ccontr)
  assume "\<not> length p2 \<le> length p1"
  then have lt: "length p1 < length p2" by simp
  then have ne2: "p2 \<noteq> []" by auto
  show False
  proof (cases "p1 = []")
    case True
    from w2 ne2 have "start \<noteq> None" by (cases p2) (simp_all add: is_walk_def)
    with none1 True have "L \<le> n" by simp
    with bound2 ne2 show False by (cases p2) simp_all
  next
    case False
    let ?i = "length p1 - 1"
    from False lt have i: "?i < length p1" "?i < length p2" "Suc ?i < length p2" by (cases p1; simp)+
    have same: "last p1 = p2 ! ?i"
      using is_walk_nth [OF w1 w2 i(1,2)] False by (simp add: last_conv_nth)
    have "?i < length (butlast p2)" using i(3) by simp
    then have "butlast p2 ! ?i \<in> set (butlast p2)" by (rule nth_mem)
    moreover have "butlast p2 ! ?i = p2 ! ?i"
      using \<open>?i < length (butlast p2)\<close> by (rule nth_butlast)
    ultimately have "p2 ! ?i \<in> set (butlast p2)" by simp
    with open2 same have a: "\<not> stop (last p1)" by simp
    from w2 i(3) have "mParent (h (p2 ! ?i)) = Some (p2 ! Suc ?i)"
      by (cases p2) (simp_all add: is_walk_def)
    with same have b: "mParent (h (last p1)) \<noteq> None" by simp
    from end1 False a b have "L \<le> n + length p1" by simp
    with bound2 ne2 lt show False by simp
  qed
qed

lemma walk_determined:
  assumes "is_walk h start p1" "is_walk h start p2"
    and "\<forall>q \<in> set (butlast p1). \<not> stop q" "\<forall>q \<in> set (butlast p2). \<not> stop q"
    and "p1 \<noteq> [] \<longrightarrow> n + length p1 \<le> L" "p2 \<noteq> [] \<longrightarrow> n + length p2 \<le> L"
    and "p1 \<noteq> [] \<longrightarrow> stop (last p1) \<or> mParent (h (last p1)) = None \<or> L \<le> n + length p1"
    and "p2 \<noteq> [] \<longrightarrow> stop (last p2) \<or> mParent (h (last p2)) = None \<or> L \<le> n + length p2"
    and "p1 = [] \<longrightarrow> start = None \<or> L \<le> n" "p2 = [] \<longrightarrow> start = None \<or> L \<le> n"
  shows "p1 = p2"
proof -
  have "length p2 \<le> length p1"
    by (rule walk_not_longer [OF assms(1,2,4,6,7,9)])
  moreover have "length p1 \<le> length p2"
    by (rule walk_not_longer [OF assms(2,1,3,5,8,10)])
  ultimately have len: "length p1 = length p2" by simp
  show ?thesis
  proof (rule nth_equalityI [OF len])
    fix i assume "i < length p1"
    with len show "p1 ! i = p2 ! i"
      by (intro is_walk_nth [OF assms(1,2)]) simp_all
  qed
qed

text \<open>
  C2 (amended). \<^verbatim>\<open>buildChain\<close> appends the seed joint and then its ancestors in turn, marks
  each of them active and changes nothing else. No ancestor before the last one meets a
  stop condition, and an ancestor is appended only while the chain is shorter than
  \<open>chain_length\<close>, so with an ancestor in it the chain is no longer than \<open>chain_length\<close>. The
  last ancestor meets a stop condition, or has no parent, or the chain has reached
  \<open>chain_length\<close>; when no ancestor is appended, the seed has no parent or the chain with
  the seed has reached \<open>chain_length\<close>. The id of the last ancestor is inserted into
  \<open>sub_bases\<close> exactly when the sub-base test stopped the walk there.
\<close>

theorem buildChain_walk:
  assumes "buildChain joint chain sub_bases chain_length s = (chain', sub_bases', s')"
  shows "\<exists>path. chain' = chain @ joint # path
      \<and> is_walk (joints s) (mParent (joints s joint)) path
      \<and> s' = s\<lparr>joints := (\<lambda>q. if q \<in> set (joint # path) then activate (joints s q) else joints s q)\<rparr>
      \<and> (\<forall>q \<in> set (butlast path). \<not> chain_stop s (joints s q))
      \<and> (path \<noteq> [] \<longrightarrow> length chain' \<le> chain_length)
      \<and> (path \<noteq> [] \<longrightarrow> chain_stop s (joints s (last path)) \<or> mParent (joints s (last path)) = None
                          \<or> chain_length \<le> length chain')
      \<and> (path = [] \<longrightarrow> mParent (joints s joint) = None \<or> chain_length \<le> length chain + 1)
      \<and> sub_bases' = (if path \<noteq> [] \<and> stopped_at_sub_base s (joints s (last path))
                       then insert (mID (joints s (last path))) sub_bases else sub_bases)"
proof -
  let ?h = "joints s"
  let ?h1 = "?h(joint := activate (?h joint))"
  obtain h' where loop:
    "buildChain_loop s (mParent (?h joint)) (chain @ [joint]) sub_bases chain_length ?h1
       = (chain', sub_bases', h')" and s': "s' = s\<lparr>joints := h'\<rparr>"
    using assms unfolding buildChain_def Let_def
    by (cases "buildChain_loop s (mParent (?h1 joint)) (chain @ [joint]) sub_bases chain_length ?h1")
       (simp add: activate_frame)
  from buildChain_loop_walk [OF loop] obtain path where path:
    "chain' = (chain @ [joint]) @ path"
    "is_walk ?h1 (mParent (?h joint)) path"
    "\<forall>q. h' q = (if q \<in> set path then activate (?h1 q) else ?h1 q)"
    "\<forall>q \<in> set (butlast path). \<not> chain_stop s (?h1 q)"
    "path \<noteq> [] \<longrightarrow> chain_stop s (?h1 (last path)) \<or> mParent (?h1 (last path)) = None
                      \<or> chain_length \<le> length chain'"
    "path = [] \<longrightarrow> mParent (?h joint) = None \<or> chain_length \<le> length (chain @ [joint])"
    "sub_bases' = (if path \<noteq> [] \<and> stopped_at_sub_base s (?h1 (last path))
                   then insert (mID (?h1 (last path))) sub_bases else sub_bases)"
    "path \<noteq> [] \<longrightarrow> length chain' \<le> chain_length"
    by blast
  have "h' = (\<lambda>q. if q \<in> set (joint # path) then activate (?h q) else ?h q)"
    using path(3) by (auto simp: activate_idem fun_eq_iff)
  with s' have c3: "s' = s\<lparr>joints := (\<lambda>q. if q \<in> set (joint # path) then activate (?h q) else ?h q)\<rparr>"
    by simp
  show ?thesis
    using path(1,2,4,5,6,7,8) c3 unfolding upd_frame is_walk_upd
    by (intro exI [of _ path]) simp
qed

lemmas example_eval =
  buildChain_def buildChain_loop.simps Let_def example_solver_def example_joints_def
  example_joint_def activate_def isSubRoot_def isSubBase_def Joint_hasPosTarget_def getNumChildren_def
  CONFIG_FLAG_TARGET_POS_def

text \<open>
  With the whitelist \<open>{9}\<close>, the walk from joint 2 passes joint 1, which has two children
  and is neither sub-root, root nor position-targeted: the chain is \<open>[2, 1, 0]\<close> and no
  sub-base is recorded.
\<close>

theorem buildChain_passes_branching_joint:
  "fst (buildChain 2 [] {} 255 (example_solver\<lparr>mSubBaseIds := {9}\<rparr>)) = [2, 1, 0]
   \<and> fst (snd (buildChain 2 [] {} 255 (example_solver\<lparr>mSubBaseIds := {9}\<rparr>))) = {}
   \<and> claimed_sub_base (example_solver\<lparr>mSubBaseIds := {9}\<rparr>)
        (joints (example_solver\<lparr>mSubBaseIds := {9}\<rparr>) 1)"
  by (simp add: example_eval claimed_sub_base_def)

text \<open>
  Two walks from joint 2. With the limit 255 and no whitelist the walk stops at joint 1, a
  sub-base, which is recorded. With the limit 2 and the whitelist \<open>{9}\<close> joint 1 is no stop
  and has a parent: the walk ends there because the chain holds two joints.
\<close>

theorem buildChain_walk_witness:
  "buildChain 2 [] {} 255 example_solver
     = ([2, 1], {1},
        example_solver\<lparr>joints := (\<lambda>q. if q \<in> set [2, 1] then activate (example_joints q)
                                       else example_joints q)\<rparr>)
   \<and> chain_stop example_solver (example_joints 1)
   \<and> stopped_at_sub_base example_solver (example_joints 1)
   \<and> buildChain 2 [] {} 2 (example_solver\<lparr>mSubBaseIds := {9}\<rparr>)
     = ([2, 1], {},
        example_solver\<lparr>mSubBaseIds := {9},
                        joints := (\<lambda>q. if q \<in> set [2, 1] then activate (example_joints q)
                                       else example_joints q)\<rparr>)
   \<and> \<not> chain_stop (example_solver\<lparr>mSubBaseIds := {9}\<rparr>) (example_joints 1)
   \<and> mParent (example_joints 1) = Some 0"
proof -
  obtain c sb s' where ev: "buildChain 2 [] {} 255 example_solver = (c, sb, s')"
    by (cases "buildChain 2 [] {} 255 example_solver")
  have "fst (buildChain 2 [] {} 255 example_solver) = [2, 1]"
       "fst (snd (buildChain 2 [] {} 255 example_solver)) = {1}"
    by (simp_all add: example_eval)
  with ev have c: "c = [2, 1]" and sb: "sb = {1}" by simp_all
  have j: "joints example_solver = example_joints" by (simp add: example_solver_def)
  from buildChain_walk [OF ev] obtain path where path:
    "c = [] @ 2 # path"
    "s' = example_solver\<lparr>joints := (\<lambda>q. if q \<in> set (2 # path) then activate (joints example_solver q)
                                          else joints example_solver q)\<rparr>"
    "path \<noteq> [] \<longrightarrow> chain_stop example_solver (joints example_solver (last path))
        \<or> mParent (joints example_solver (last path)) = None \<or> 255 \<le> length c"
    "sb = (if path \<noteq> [] \<and> stopped_at_sub_base example_solver (joints example_solver (last path))
           then insert (mID (joints example_solver (last path))) {} else {})"
    by blast
  from path(1) c have p: "path = [1]" by simp
  have par: "mParent (example_joints 1) = Some 0"
    by (simp add: example_joints_def example_joint_def)
  from path(3) have "chain_stop example_solver (example_joints 1)"
    using par by (auto simp: p c j)
  moreover from path(4) sb have "stopped_at_sub_base example_solver (example_joints 1)"
    by (simp add: p j split: if_splits)
  moreover from path(2) have "s' = example_solver\<lparr>joints := (\<lambda>q. if q \<in> set [2, 1]
         then activate (example_joints q) else example_joints q)\<rparr>"
    unfolding p j .
  ultimately have first: "buildChain 2 [] {} 255 example_solver
     = ([2, 1], {1},
        example_solver\<lparr>joints := (\<lambda>q. if q \<in> set [2, 1] then activate (example_joints q)
                                       else example_joints q)\<rparr>)
   \<and> chain_stop example_solver (example_joints 1)
   \<and> stopped_at_sub_base example_solver (example_joints 1)"
    using ev c sb by simp
  let ?S = "example_solver\<lparr>mSubBaseIds := {9}\<rparr>"
  obtain c2 sb2 s2 where ev2: "buildChain 2 [] {} 2 ?S = (c2, sb2, s2)"
    by (cases "buildChain 2 [] {} 2 ?S")
  have "fst (buildChain 2 [] {} 2 ?S) = [2, 1]"
       "fst (snd (buildChain 2 [] {} 2 ?S)) = {}"
    by (simp_all add: example_eval)
  with ev2 have c2: "c2 = [2, 1]" and sb2: "sb2 = {}" by simp_all
  have j2: "joints ?S = example_joints" by (simp add: example_solver_def)
  have ns: "\<not> chain_stop ?S (example_joints 1)"
    by (simp add: chain_stop_def sub_base_stop_def example_eval)
  from buildChain_walk [OF ev2] obtain path2 where path2:
    "c2 = [] @ 2 # path2"
    "s2 = ?S\<lparr>joints := (\<lambda>q. if q \<in> set (2 # path2) then activate (joints ?S q) else joints ?S q)\<rparr>"
    "path2 \<noteq> [] \<longrightarrow> length c2 \<le> 2"
    "path2 \<noteq> [] \<longrightarrow> chain_stop ?S (joints ?S (last path2))
        \<or> mParent (joints ?S (last path2)) = None \<or> 2 \<le> length c2"
    by blast
  from path2(1) c2 have p2: "path2 = [1]" by simp
  from path2(2) have "s2 = ?S\<lparr>joints := (\<lambda>q. if q \<in> set [2, 1]
         then activate (example_joints q) else example_joints q)\<rparr>"
    unfolding p2 j2 .
  then have second: "buildChain 2 [] {} 2 ?S
     = ([2, 1], {},
        example_solver\<lparr>mSubBaseIds := {9},
                        joints := (\<lambda>q. if q \<in> set [2, 1] then activate (example_joints q)
                                       else example_joints q)\<rparr>)"
    using ev2 c2 sb2 by simp
  from first second ns par show ?thesis by simp
qed

subsection \<open>The base \<^verbatim>\<open>Constraint::enforce\<close>\<close>

lemmas real_math_eval =
  real_math_def real_vec_add_def real_vec_sub_def real_vec_scale_def real_vec_div_def
  real_vec_dot_def real_vec_cross_def real_vec_length_def real_vec_normalize_def
  real_quat_mul_def real_quat_add_def real_quat_sub_def real_quat_conjugate_def
  real_quat_length_def real_quat_normalize_def real_vec_rot_def real_shortestArc_def
  real_getAngleAxis_def real_setAngleAxis_def real_lerp_def real_almost_equal_angle_def
  LLQuaternion_DEFAULT_def Let_def

lemma example_cone: "SimpleCone_ctor real_math (vec3 0 0 1) 0 = SimpleCone (vec3 0 0 1) 0 1 0"
  by (simp add: SimpleCone_ctor_def real_math_eval)

lemma example_cone_adjust:
  "SimpleCone_computeAdjustedLocalRot real_math (SimpleCone (vec3 0 0 1) 0 1 0) (quat 1 0 0 0)
     = quat 0 0 (- 1) 0"
  by (simp add: SimpleCone_computeAdjustedLocalRot.simps real_math_eval)

text \<open>
  C6 (amended). The base \<^verbatim>\<open>Constraint::enforce\<close> returns true exactly when the adjusted
  rotation is not \<^verbatim>\<open>almost_equal\<close> to the joint's \<^verbatim>\<open>mLocalRot\<close>; it then writes the adjusted
  rotation into \<^verbatim>\<open>mLocalRot\<close> if the joint's local rotation is not locked, and changes
  nothing otherwise. \<^verbatim>\<open>mRot\<close> is never changed. For a joint that is not locked (and a
  reflexive \<^verbatim>\<open>almost_equal\<close>) it returns true iff the joint changed.
\<close>

theorem Constraint_enforce_result:
  "Constraint_enforce K computeAdjustedLocalRot joint =
     (\<not> almost_equal K (computeAdjustedLocalRot (mLocalRot joint)) (mLocalRot joint),
      if \<not> almost_equal K (computeAdjustedLocalRot (mLocalRot joint)) (mLocalRot joint)
           \<and> \<not> localRotLocked joint
      then joint\<lparr>mLocalRot := computeAdjustedLocalRot (mLocalRot joint)\<rparr> else joint)
   \<and> mRot (snd (Constraint_enforce K computeAdjustedLocalRot joint)) = mRot joint
   \<and> (\<not> localRotLocked joint \<and> (\<forall>q. almost_equal K q q) \<longrightarrow>
        fst (Constraint_enforce K computeAdjustedLocalRot joint)
          = (snd (Constraint_enforce K computeAdjustedLocalRot joint) \<noteq> joint))"
proof -
  let ?adj = "computeAdjustedLocalRot (mLocalRot joint)"
  have r: "Constraint_enforce K computeAdjustedLocalRot joint =
     (\<not> almost_equal K ?adj (mLocalRot joint),
      if \<not> almost_equal K ?adj (mLocalRot joint) \<and> \<not> localRotLocked joint
      then joint\<lparr>mLocalRot := ?adj\<rparr> else joint)"
    by (simp add: Constraint_enforce_def setLocalRot_def Let_def)
  have w: "mRot (snd (Constraint_enforce K computeAdjustedLocalRot joint)) = mRot joint"
    by (simp add: r)
  have c: "fst (Constraint_enforce K computeAdjustedLocalRot joint)
          = (snd (Constraint_enforce K computeAdjustedLocalRot joint) \<noteq> joint)"
    if u: "\<not> localRotLocked joint" and refl: "\<forall>q. almost_equal K q q"
  proof (cases "almost_equal K ?adj (mLocalRot joint)")
    case True
    then show ?thesis by (simp add: r)
  next
    case False
    with refl have "?adj \<noteq> mLocalRot joint" by metis
    then have "joint\<lparr>mLocalRot := ?adj\<rparr> \<noteq> joint"
      by (metis Joint.select_convs(4) Joint.surjective Joint.update_convs(4))
    with False u show ?thesis by (simp add: r)
  qed
  from r w c show ?thesis by blast
qed

text \<open>
  On a locked joint whose local rotation turns the forward axis of a cone of angle 0
  upside down, the call returns true and leaves the joint as it was.
\<close>

theorem Constraint_enforce_locked_joint:
  "Constraint_enforce real_math
       (SimpleCone_computeAdjustedLocalRot real_math (SimpleCone_ctor real_math (vec3 0 0 1) 0))
       ((example_joint 0 None [1])\<lparr>mLocalRot := quat 1 0 0 0\<rparr>)
     = (True, (example_joint 0 None [1])\<lparr>mLocalRot := quat 1 0 0 0\<rparr>)
   \<and> \<not> almost_equal real_math
         (SimpleCone_computeAdjustedLocalRot real_math (SimpleCone_ctor real_math (vec3 0 0 1) 0)
            (mLocalRot ((example_joint 0 None [1])\<lparr>mLocalRot := quat 1 0 0 0\<rparr>)))
         (mLocalRot ((example_joint 0 None [1])\<lparr>mLocalRot := quat 1 0 0 0\<rparr>))"
proof -
  have ne: "\<not> almost_equal real_math (quat 0 0 (- 1) 0) (quat 1 0 0 0)"
    by (simp add: real_math_def real_almost_equal_angle_def)
  have lk: "localRotLocked ((example_joint 0 None [1])\<lparr>mLocalRot := quat 1 0 0 0\<rparr>)"
    by (simp add: localRotLocked_def example_joint_def IK_FLAG_LOCAL_ROT_LOCKED_def)
  show ?thesis
    unfolding example_cone using lk ne
    by (simp add: Constraint_enforce_def setLocalRot_def Let_def example_cone_adjust)
qed

theorem Constraint_enforce_result_witness:
  "\<not> localRotLocked ((example_joint 2 (Some 1) [])\<lparr>mLocalRot := quat 1 0 0 0\<rparr>)
   \<and> (\<forall>q. almost_equal real_math q q)
   \<and> Constraint_enforce real_math
       (SimpleCone_computeAdjustedLocalRot real_math (SimpleCone_ctor real_math (vec3 0 0 1) 0))
       ((example_joint 2 (Some 1) [])\<lparr>mLocalRot := quat 1 0 0 0\<rparr>)
     = (True, (example_joint 2 (Some 1) [])\<lparr>mLocalRot := quat 0 0 (- 1) 0\<rparr>)
   \<and> (example_joint 2 (Some 1) [])\<lparr>mLocalRot := quat 0 0 (- 1) 0\<rparr>
       \<noteq> (example_joint 2 (Some 1) [])\<lparr>mLocalRot := quat 1 0 0 0\<rparr>"
proof -
  let ?J = "(example_joint 2 (Some 1) [])\<lparr>mLocalRot := quat 1 0 0 0\<rparr>"
  let ?adj = "SimpleCone_computeAdjustedLocalRot real_math (SimpleCone_ctor real_math (vec3 0 0 1) 0)"
  have ne: "\<not> almost_equal real_math (quat 0 0 (- 1) 0) (quat 1 0 0 0)"
    by (simp add: real_math_def real_almost_equal_angle_def)
  have u: "\<not> localRotLocked ?J"
    by (simp add: localRotLocked_def example_joint_def)
  have refl: "\<forall>q. almost_equal real_math q q"
    by (simp add: real_math_def real_almost_equal_angle_def)
  have a: "?adj (mLocalRot ?J) = quat 0 0 (- 1) 0"
    by (simp add: example_cone example_cone_adjust)
  from Constraint_enforce_result [of real_math ?adj ?J]
  have "Constraint_enforce real_math ?adj ?J =
     (\<not> almost_equal real_math (?adj (mLocalRot ?J)) (mLocalRot ?J),
      if \<not> almost_equal real_math (?adj (mLocalRot ?J)) (mLocalRot ?J) \<and> \<not> localRotLocked ?J
      then ?J\<lparr>mLocalRot := ?adj (mLocalRot ?J)\<rparr> else ?J)"
    by (rule conjunct1)
  then have "Constraint_enforce real_math ?adj ?J = (True, ?J\<lparr>mLocalRot := quat 0 0 (- 1) 0\<rparr>)"
    unfolding a using ne u by simp
  moreover have "?J\<lparr>mLocalRot := quat 0 0 (- 1) 0\<rparr> \<noteq> ?J"
    by (simp add: example_joint_def)
  ultimately show ?thesis using u refl by simp
qed

subsection \<open>Hashing and the factory\<close>

lemma to_upper_example: "to_upper ''ACUTE_ELLIPSOIDAL_CONE'' = ''ACUTE_ELLIPSOIDAL_CONE''"
  by (simp add: to_upper_def char_of_def)
lemma example_cone_created:
  "create real_math (example_cone_def left) =
     Some (AcuteEllipsoidalCone
       \<lparr>Acute_mForward = vec3 1 0 0, Acute_mUp = vec3 0 0 1, Acute_mLeft = vec3 0 1 0,
        Acute_mXForward = 1, Acute_mXUp = 1, Acute_mXDown = 1,
        Acute_mXLeft = left, Acute_mXRight = 1,
        Acute_mQuadrantScales = [1, 1 / \<bar>left\<bar>, 1 / \<bar>left\<bar>, 1],
        Acute_mQuadrantCosAngles = [1 / sqrt 2, 1 / sqrt 2, 1 / sqrt 2, 1 / sqrt 2],
        Acute_mQuadrantCotAngles = [1, 1, 1, 1]\<rparr>)"
  by (simp add: create_def to_upper_example AcuteEllipsoidalCone_LLSD_def Constraint_forward_def example_cone_def_def
        real_math_eval)

lemma AcuteEllipsoidalCone_hash_ignores_left:
  "generateHash hash_combine
       (AcuteEllipsoidalCone (m\<lparr>Acute_mXLeft := left, Acute_mQuadrantScales := scales\<rparr>))
     = generateHash hash_combine (AcuteEllipsoidalCone m)"
  by (simp add: Constraint_generateHash_def)

text \<open>
  C9. Two \<^verbatim>\<open>ACUTE_ELLIPSOIDAL_CONE\<close> definitions that differ only in the left extent
  (1 and 2) give different objects with the same hash, whatever \<^verbatim>\<open>hash_combine\<close> is:
  \<^verbatim>\<open>generateHash\<close> combines the vector \<^verbatim>\<open>mLeft\<close> where the extent \<^verbatim>\<open>mXLeft\<close> was meant. The
  factory, asked for the second after the first, returns the first object.
\<close>

theorem getConstraint_shares_different_cones:
  "create real_math (example_cone_def 1) \<noteq> create real_math (example_cone_def 2)
   \<and> map_option (generateHash hash_combine) (create real_math (example_cone_def 1))
       = map_option (generateHash hash_combine) (create real_math (example_cone_def 2))
   \<and> fst (getConstraint real_math hash_combine (example_cone_def 2)
            (snd (getConstraint real_math hash_combine (example_cone_def 1)
                    \<lparr>mConstraints = Map.empty, mJointMapping = Map.empty\<rparr>)))
       = create real_math (example_cone_def 1)"
  by (simp add: example_cone_created getConstraint_def Constraint_generateHash_def)

subsection \<open>\<^verbatim>\<open>updateEndInward\<close>\<close>

lemma sqrt_64_25: "sqrt (64 / 25) = 8 / 5"
  by (rule real_sqrt_unique) (simp_all add: power2_eq_square)

lemmas flag_eval =
  Joint_hasRotTarget_def Joint_hasPosTarget_def isActive_def localRotLocked_def
  Joint_hasDisabledConstraint_def CONFIG_FLAG_TARGET_ROT_def CONFIG_FLAG_TARGET_POS_def
  IK_FLAG_ACTIVE_def IK_FLAG_LOCAL_ROT_LOCKED_def CONFIG_FLAG_DISABLE_CONSTRAINT_def

lemma real_math_sel:
  "vec_add real_math = real_vec_add" "vec_sub real_math = real_vec_sub"
  "vec_scale real_math = real_vec_scale" "vec_div real_math = real_vec_div"
  "vec_dot real_math = real_vec_dot" "vec_cross real_math = real_vec_cross"
  "vec_length real_math = real_vec_length" "vec_normalize real_math = real_vec_normalize"
  "vec_rot real_math = real_vec_rot" "quat_mul real_math = real_quat_mul"
  "quat_add real_math = real_quat_add" "quat_sub real_math = real_quat_sub"
  "quat_conjugate real_math = real_quat_conjugate" "quat_normalize real_math = real_quat_normalize"
  "shortestArc real_math = real_shortestArc" "getAngleAxis real_math = real_getAngleAxis"
  "setAngleAxis real_math = real_setAngleAxis" "lerp real_math = real_lerp"
  by (simp_all add: real_math_def)

lemma example_inward_joints_at:
  "example_inward_joints 11 =
     (example_joint 1 (Some 10) [12, 13])
          \<lparr>mRot := quat 0 (- 7 / 25) (24 / 25) 0,
           mConfig := Some ((example_config CONFIG_FLAG_TARGET_ROT (vec3 0 0 0))),
           mConfigFlags := CONFIG_FLAG_TARGET_ROT, mIkFlags := IK_FLAG_ACTIVE\<rparr>"
  "example_inward_joints 12 =
     (example_joint 2 (Some 11) [])
          \<lparr>mRot := quat 1 0 0 0, mConstraint := Some example_cone, mIkFlags := IK_FLAG_ACTIVE\<rparr>"
  "example_inward_joints 13 = (example_joint 3 (Some 11) [])\<lparr>mRot := quat 0 (- 7 / 25) (24 / 25) 0\<rparr>"
  by (simp_all add: example_inward_joints_def)

lemma example_inward_targets:
  "updateEndInward_targets real_math 11 example_inward_joints
     = Inr (example_inward_joints(11 := (example_inward_joints 11)\<lparr>mRot := quat 0 0 0 1\<rparr>))"
  by (simp add: updateEndInward_targets_def example_inward_joints_at example_joint_def
        example_config_def flag_eval LLQuaternion_DEFAULT_def Let_def)

lemma example_inward_local_rot: "real_quat_normalize (real_quat_mul (quat 1 0 0 0) (real_quat_conjugate (quat 0 0 0 1)))
            = quat 1 0 0 0"
  by (simp add: real_quat_normalize_def real_quat_mul_def real_quat_conjugate_def real_quat_length_def
        Let_def)

lemma example_not_almost_equal: "\<not> almost_equal real_math (quat 1 0 0 0) (quat 0 0 0 1)"
           "\<not> almost_equal real_math (quat 0 0 (- 1) 0) (quat 1 0 0 0)"
  by (simp_all add: real_math_def real_almost_equal_angle_def)

lemma example_cone_adjust2:
  "SimpleCone_computeAdjustedLocalRot real_math example_cone (quat 1 0 0 0) = quat 0 0 (- 1) 0"
  unfolding example_cone_def by (rule example_cone_adjust)

lemma example_inward_joint_12: "mParent (example_inward_joints 12) = Some 11" "mRot (example_inward_joints 12) = quat 1 0 0 0"
    "mLocalRot (example_inward_joints 12) = quat 0 0 0 1" "\<not> localRotLocked (example_inward_joints 12)"
    "mConstraint (example_inward_joints 12) = Some example_cone"
    "\<not> Joint_hasDisabledConstraint (example_inward_joints 12)"
    "isActive (example_inward_joints 12)"
    by (simp_all add: example_inward_joints_at example_joint_def flag_eval LLQuaternion_DEFAULT_def)

lemma example_inward_joint_12_upd: "\<not> localRotLocked ((example_inward_joints 12)\<lparr>mLocalRot := q\<rparr>)"
           "\<not> Joint_hasDisabledConstraint ((example_inward_joints 12)\<lparr>mLocalRot := q\<rparr>)"
           "mConstraint ((example_inward_joints 12)\<lparr>mLocalRot := q\<rparr>) = Some example_cone"
  using example_inward_joint_12 by (simp_all add: localRotLocked_def Joint_hasDisabledConstraint_def)

lemma example_inward_child:
  "updateLocalRot real_math example_enforce 12 True
      (example_inward_joints(11 := (example_inward_joints 11)\<lparr>mRot := quat 0 0 0 1\<rparr>))
     = Inr (True, example_inward_joints
              (11 := (example_inward_joints 11)\<lparr>mRot := quat 0 0 0 1\<rparr>,
               12 := (example_inward_joints 12)\<lparr>mLocalRot := quat 0 0 (- 1) 0\<rparr>))"
  by (simp add: updateLocalRot_def enforceConstraint_def example_enforce_def Constraint_enforce_at_def
          Constraint_enforce_def setLocalRot_def example_inward_joint_12 example_inward_joint_12_upd real_math_sel example_inward_local_rot example_not_almost_equal example_cone_adjust2 Let_def)

lemma example_inward_children:
  "updateEndInward_children real_math example_enforce True [12, 13] False
      (example_inward_joints(11 := (example_inward_joints 11)\<lparr>mRot := quat 0 0 0 1\<rparr>))
     = Inr (True, example_inward_joints
              (11 := (example_inward_joints 11)\<lparr>mRot := quat 0 0 0 1\<rparr>,
               12 := (example_inward_joints 12)\<lparr>mLocalRot := quat 0 0 (- 1) 0\<rparr>))"
proof -
  have "\<not> isActive (example_inward_joints 13)"
    by (simp add: example_inward_joints_at example_joint_def flag_eval)
  then show ?thesis by (simp add: example_inward_child example_inward_joint_12 updateEndInward_children.simps)
qed

lemma example_inward_average:
  "mRot (updateEndInward_average real_math 11 [12, 13] (quat 0 0 0 0)
          (example_inward_joints
              (11 := (example_inward_joints 11)\<lparr>mRot := quat 0 0 0 1\<rparr>,
               12 := (example_inward_joints 12)\<lparr>mLocalRot := quat 0 0 (- 1) 0\<rparr>)) 11)
     = quat 0 (- 4 / 5) (3 / 5) 0"
proof -
  have j13: "mLocalRot (example_inward_joints 13) = quat 0 0 0 1"
    "mRot (example_inward_joints 13) = quat 0 (- 7 / 25) (24 / 25) 0"
    by (simp_all add: example_inward_joints_at example_joint_def LLQuaternion_DEFAULT_def)
  show ?thesis
    by (simp add: updateEndInward_average.simps Let_def real_math_sel example_inward_joint_12 j13 real_quat_normalize_def real_quat_mul_def
          real_quat_conjugate_def real_quat_length_def real_quat_add_def sqrt_64_25)
qed

lemma updateEndInward_average_frame:
  "q \<noteq> p \<Longrightarrow> updateEndInward_average K p children avg_rot h q = h q"
  "mChildren (updateEndInward_average K p children avg_rot h p) = mChildren (h p)"
  by (induction children arbitrary: avg_rot h) (simp_all add: updateEndInward_average.simps Let_def)

text \<open>
  C7. In the example the constraint of the active child 2 fires. The rotation that
  \<^verbatim>\<open>updateEndInward\<close> then stores in joint 1 is \<open>(0, -4/5, 3/5, 0)\<close>; the average over the
  active children alone is \<open>(0, -1, 0, 0)\<close>. The loop runs over all of \<^verbatim>\<open>mChildren\<close>, so
  the stale rotation of the inactive child 3 enters the result.
\<close>

theorem updateEndInward_averages_inactive_child:
  "map_sum id (\<lambda>h'. (mRot (h' 11), active_children_average real_math 11 h'))
      (updateEndInward real_math example_enforce 11 True example_inward_joints)
     = Inr (quat 0 (- 4 / 5) (3 / 5) 0, quat 0 (- 1) 0 0)"
proof -
  let ?h2 = "example_inward_joints
              (11 := (example_inward_joints 11)\<lparr>mRot := quat 0 0 0 1\<rparr>,
               12 := (example_inward_joints 12)\<lparr>mLocalRot := quat 0 0 (- 1) 0\<rparr>)"
  let ?h3 = "updateEndInward_average real_math 11 [12, 13] (quat 0 0 0 0) ?h2"
  have c: "mChildren (example_inward_joints 11) = [12, 13]"
    by (simp add: example_inward_joints_at example_joint_def)
  have run: "updateEndInward real_math example_enforce 11 True example_inward_joints = Inr ?h3"
    by (simp add: updateEndInward_def example_inward_targets c example_inward_children LLQuaternion_DEFAULT_def)
  have act: "isActive (?h3 12)" "\<not> isActive (?h3 13)"
    by (simp_all add: updateEndInward_average_frame isActive_def example_inward_joints_at
          example_joint_def IK_FLAG_ACTIVE_def)
  have rots: "mLocalRot (?h3 12) = quat 0 0 (- 1) 0" "mRot (?h3 12) = quat 1 0 0 0"
    by (simp_all add: updateEndInward_average_frame example_inward_joint_12)
  have "mChildren (?h3 11) = [12, 13]"
    by (simp add: updateEndInward_average_frame(2) c)
  then have claimed: "active_children_average real_math 11 ?h3 = quat 0 (- 1) 0 0"
    by (simp add: active_children_average_def act rots Let_def real_math_sel real_quat_normalize_def
          real_quat_mul_def real_quat_conjugate_def real_quat_length_def real_quat_add_def)
  show ?thesis
    unfolding run using example_inward_average claimed by simp
qed

subsection \<open>The root joint\<close>

text \<open>
  What keeps the root's local rotation fixed: \<^verbatim>\<open>setParent\<close> with a null parent sets the
  lock and leaves world and local rotation equal, \<^verbatim>\<open>resetFlags\<close> sets the lock again on a
  joint without parent, \<^verbatim>\<open>setLocalRot\<close> does nothing on a locked joint, and \<^verbatim>\<open>relaxRot\<close>
  copies the unchanged local rotation of a locked root into its world rotation.
\<close>

lemma setParent_root:
  "localRotLocked (setParent K None p h p)"
  "mParent (setParent K None p h p) = None"
  "mRot (setParent K None p h p) = mLocalRot (setParent K None p h p)"
  by (simp_all add: setParent_def reset_def resetFromInfo_def Let_def localRotLocked_def
                    IK_FLAG_LOCAL_ROT_LOCKED_def)

lemma resetFlags_root: "mParent j = None \<Longrightarrow> localRotLocked (resetFlags j)"
  by (simp add: resetFlags_def localRotLocked_def IK_FLAG_LOCAL_ROT_LOCKED_def)

lemma relaxRot_root:
  assumes "mParent (h p) = None" and "localRotLocked (h p)"
  shows "mLocalRot (relaxRot K b p h p) = mLocalRot (h p)"
    and "mRot (relaxRot K b p h p) = mLocalRot (h p)"
    and "localRotLocked (relaxRot K b p h p)"
  using assms by (simp_all add: relaxRot_def Let_def localRotLocked_def)

text \<open>
  \<^verbatim>\<open>ElbowConstraint::enforce\<close> on an elbow whose shoulder is the locked root, for every
  math kernel: the root keeps its local rotation, its lock and its missing parent, and its
  world rotation either stays or is multiplied by a back-rotation that is not almost the
  identity.
\<close>

lemma updateLocalRot_False_frame:
  assumes "updateLocalRot K enforce p False h = Inr (changed, h')" and "s \<noteq> p"
  shows "h' s = h s"
  using assms
  by (auto simp add: updateLocalRot_def Let_def split: option.splits if_splits)

lemma ElbowConstraint_enforce_root_shoulder:
  assumes par: "mParent (h p) = Some s" and ne: "s \<noteq> p"
    and root: "mParent (h s) = None" and lk: "localRotLocked (h s)"
    and res: "ElbowConstraint_enforce K f enforce (ElbowConstraint a b c d e g i) p h
                = Inr (changed, h')"
  shows "mLocalRot (h' s) = mLocalRot (h s) \<and> localRotLocked (h' s) \<and> mParent (h' s) = None
         \<and> (mRot (h' s) = mRot (h s)
            \<or> (\<exists>adjustment.
                  \<not> almost_equal_angle K adjustment LLQuaternion_DEFAULT VERY_SMALL_ANGLE
                  \<and> mRot (h' s) = quat_normalize K (quat_mul K (mRot (h s)) adjustment)))"
proof -
  from res par ne root lk show ?thesis
    apply (subst (asm) ElbowConstraint_enforce.simps)
    apply (simp add: Let_def split: prod.splits sum.splits if_splits)
    apply (auto simp add: setWorldRot_def setLocalRot_def localRotLocked_def
                dest!: updateLocalRot_False_frame [where s = s])
    done
qed

text \<open>The evaluation of \<^verbatim>\<open>ElbowConstraint::enforce\<close> on the example arm, step by step.\<close>

lemma example_arm_joints_20: "example_arm_joints 20 = example_joint 0 None [21]"
  by (simp add: example_arm_joints_def)

lemma example_arm_joints_21: "example_arm_joints 21 = (example_joint 1 (Some 20) [])
             \<lparr>mPos := vec3 1 0 0, mLocalPos := vec3 1 0 0, mBone := vec3 0 1 0,
              mRot := quat 1 0 0 0, mLocalRot := quat 1 0 0 0,
              mConstraint := Some example_elbow, mIkFlags := IK_FLAG_ACTIVE\<rparr>"
  by (simp add: example_arm_joints_def)

lemma VERY_SMALL_ANGLE_bounds: "VERY_SMALL_ANGLE < 1" "0 < VERY_SMALL_ANGLE"
  using pi_less_4 by (simp_all add: VERY_SMALL_ANGLE_def F_PI_def)

lemma example_arm_geometry:
  "computeWorldEndPos real_math (example_arm_joints 21) = vec3 1 (- 1) 0"
  "vec_rot real_math (vec3 0 0 1) (quat 1 0 0 0) = vec3 0 0 (- 1)"
  "vec_rot real_math (vec3 0 0 1) (quat 0 0 0 1) = vec3 0 0 1"
  "vec_normalize real_math (vec_sub real_math (vec3 1 (- 1) 0) (vec3 1 0 0)) = vec3 0 (- 1) 0"
  "vec_normalize real_math (vec_sub real_math (vec3 1 0 0) (vec3 0 0 0)) = vec3 1 0 0"
  "vec_cross real_math (vec3 1 0 0) (vec3 0 (- 1) 0) = vec3 0 0 (- 1)"
  "vec_length real_math (vec3 0 0 (- 1)) = 1"
  "vec_div real_math (vec3 0 0 (- 1)) 1 = vec3 0 0 (- 1)"
  "shortestArc real_math (vec3 0 0 (- 1)) (vec3 0 0 (- 1)) = quat 0 0 0 1"
  "getAngleAxis real_math (quat 0 0 0 1) = (0, vec3 1 0 0)"
  "vec_dot real_math (vec3 1 0 0) (vec3 0 (- 1) 0) = 0"
  "shortestArc real_math (vec3 0 0 1) (vec3 0 0 (- 1)) = quat 0 (- 1) 0 0"
  "quat_normalize real_math (quat_mul real_math (quat 0 0 0 1) (quat 0 (- 1) 0 0)) = quat 0 (- 1) 0 0"
  "quat_normalize real_math (quat_mul real_math (quat 1 0 0 0) (quat_conjugate real_math (quat 0 (- 1) 0 0)))
     = quat 0 0 (- 1) 0"
  by (simp_all add: computeWorldEndPos_def example_arm_joints_21 example_joint_def real_math_sel real_math_eval)


lemma example_arm_root:
  "mParent (example_arm_joints 20) = None"
  "mRot (example_arm_joints 20) = quat 0 0 0 1"
  "mLocalRot (example_arm_joints 20) = quat 0 0 0 1"
  "mPos (example_arm_joints 20) = vec3 0 0 0"
  "localRotLocked (example_arm_joints 20)"
  by (simp_all add: example_arm_joints_20 example_joint_def localRotLocked_def flag_eval LLQuaternion_DEFAULT_def)

lemma example_arm_elbow:
  "mParent (example_arm_joints 21) = Some 20"
  "mRot (example_arm_joints 21) = quat 1 0 0 0"
  "mLocalRot (example_arm_joints 21) = quat 1 0 0 0"
  "mPos (example_arm_joints 21) = vec3 1 0 0"
  "\<not> localRotLocked (example_arm_joints 21)"
  by (simp_all add: example_arm_joints_21 example_joint_def localRotLocked_def flag_eval)

lemma example_arm_clamp: "compute_clamped_angle 0 (- 1) 1 = 0"
  by (simp add: compute_clamped_angle_def)

lemma example_arm_not_aligned:
  "\<not> almost_equal_angle real_math (quat 0 (- 1) 0 0) LLQuaternion_DEFAULT VERY_SMALL_ANGLE"
  using VERY_SMALL_ANGLE_bounds by (simp add: real_math_def real_almost_equal_angle_def LLQuaternion_DEFAULT_def)

lemma example_arm_not_equal:
  "\<not> almost_equal real_math (quat 0 0 (- 1) 0) (quat 1 0 0 0)"
  by (simp add: real_math_def real_almost_equal_angle_def)

lemma setWorldRot_sel:
  "mParent (setWorldRot q j) = mParent j"
  "mRot (setWorldRot q j) = q"
  "mLocalRot (setWorldRot q j) = mLocalRot j"
  "localRotLocked (setWorldRot q j) = localRotLocked j"
  by (simp_all add: setWorldRot_def localRotLocked_def)

lemma setLocalRot_locked: "localRotLocked j \<Longrightarrow> setLocalRot q j = j"
  by (simp add: setLocalRot_def)

lemma example_arm_shoulder_turned:
  "setLocalRot q' (setWorldRot (quat 0 (- 1) 0 0) (example_arm_joints 20))
   = (example_arm_joints 20)\<lparr>mRot := quat 0 (- 1) 0 0\<rparr>"
  using example_arm_root(5) by (simp add: setLocalRot_locked setWorldRot_sel) (simp add: setWorldRot_def)

text \<open>
  C4 (the root's world rotation always equals its local rotation): not on the example
  arm. Its shoulder is the root: it has no parent, its lock is set and its world and local
  rotations are both the identity. \<^verbatim>\<open>ElbowConstraint::enforce\<close> on the elbow completes,
  reports a change, and leaves the root with world rotation \<open>(0, -1, 0, 0)\<close> and local
  rotation \<open>(0, 0, 0, 1)\<close>: it back-rotates the shoulder with \<^verbatim>\<open>setWorldRot\<close>, and the
  \<^verbatim>\<open>setLocalRot\<close> that follows does nothing because the root is still locked.
\<close>

theorem ElbowConstraint_enforce_turns_root:
  "localRotLocked (example_arm_joints 20) \<and> mParent (example_arm_joints 20) = None
   \<and> mRot (example_arm_joints 20) = mLocalRot (example_arm_joints 20)
   \<and> map_sum id (\<lambda>(changed, h'). (changed, mRot (h' 20), mLocalRot (h' 20), localRotLocked (h' 20)))
        (ElbowConstraint_enforce real_math computeAdjustedLocalRot enforce example_elbow 21
           example_arm_joints)
      = Inr (True, quat 0 (- 1) 0 0, quat 0 0 0 1, True)"
proof -
  let ?h2 = "example_arm_joints(20 := (example_arm_joints 20)\<lparr>mRot := quat 0 (- 1) 0 0\<rparr>)"
  have up: "updateLocalRot real_math enforce 21 False ?h2
            = Inr (False, ?h2(21 := (example_arm_joints 21)\<lparr>mLocalRot := quat 0 0 (- 1) 0\<rparr>))"
    using example_arm_not_equal
    by (simp add: updateLocalRot_def example_arm_elbow example_arm_geometry Let_def)
  have "ElbowConstraint_enforce real_math computeAdjustedLocalRot enforce example_elbow 21
           example_arm_joints
        = Inr (True, ?h2(21 := (example_arm_joints 21)\<lparr>mLocalRot := quat 0 0 (- 1) 0\<rparr>))"
    unfolding example_elbow_def
    apply (subst ElbowConstraint_enforce.simps)
    using example_arm_not_aligned
    apply (simp add: example_arm_root example_arm_elbow example_arm_geometry MIN_PIVOT_LENGTH_def example_arm_clamp Let_def
                     example_arm_shoulder_turned setWorldRot_sel up)
    done
  moreover have "localRotLocked ((example_arm_joints 20)\<lparr>mRot := quat 0 (- 1) 0 0\<rparr>)"
    using example_arm_root(5) by (simp add: localRotLocked_def)
  ultimately show ?thesis
    by (simp add: example_arm_root)
qed

subsection \<open>The projection of the elbow\<close>

text \<open>
  \<^verbatim>\<open>ElbowConstraint::computeAdjustedLocalRot\<close> on the example rotation and on its own result,
  step by step. In the first call the hinge projection turns the forward axis from
  \<open>(-49/625, -168/625, -24/25)\<close> into the hinge plane, to \<open>(-7/25, -24/25, 0)\<close>; the twist is 0;
  the bend \<open>arctan (24/7) - \<pi>\<close> lies below the range and is clamped to 0. The bend adjustment
  is then the shortest arc from the forward axis of the rotation that came in to \<open>(1, 0, 0)\<close>,
  applied to a rotation whose forward axis is by now \<open>(-7/25, -24/25, 0)\<close>.
\<close>

lemma sqrt_49_625: "sqrt (49 / 625) = 7 / 25"
  by (rule real_sqrt_unique) (simp_all add: power2_eq_square)

lemma sqrt_1152_625: "sqrt (1152 / 625) = 24 * sqrt 2 / 25"
  by (rule real_sqrt_unique) (simp_all add: power2_eq_square)

lemma example_tipped_forward:
  "real_vec_rot (vec3 1 0 0) example_tipped_rot = vec3 (- (49 / 625)) (- (168 / 625)) (- (24 / 25))"
  by (simp add: example_tipped_rot_def real_math_eval)

lemma example_tipped_projected:
  "real_vec_sub (vec3 (- (49 / 625)) (- (168 / 625)) (- (24 / 25)))
     (real_vec_scale (real_vec_dot (vec3 (- (49 / 625)) (- (168 / 625)) (- (24 / 25))) (vec3 0 0 1)) (vec3 0 0 1))
   = vec3 (- (49 / 625)) (- (168 / 625)) 0"
  by (simp add: real_math_eval)

lemma example_tipped_adjustment:
  "real_shortestArc (vec3 (- (49 / 625)) (- (168 / 625)) (- (24 / 25))) (vec3 (- (49 / 625)) (- (168 / 625)) 0)
   = quat (- (72 / 125)) (21 / 125) 0 (4 / 5)"
  by (simp add: real_math_eval sqrt_49_625 sqrt_64_25)

lemma example_tipped_adjusted:
  "real_quat_mul example_tipped_rot (quat (- (72 / 125)) (21 / 125) 0 (4 / 5)) = quat 0 0 (- (4 / 5)) (3 / 5)"
  by (simp add: example_tipped_rot_def real_math_eval)

lemma example_tipped_frame:
  "real_vec_rot (vec3 1 0 0) (quat 0 0 (- (4 / 5)) (3 / 5)) = vec3 (- (7 / 25)) (- (24 / 25)) 0"
  "real_vec_rot (vec3 0 0 1) (quat 0 0 (- (4 / 5)) (3 / 5)) = vec3 0 0 1"
  "real_vec_rot (vec3 0 1 0) (quat 0 0 (- (4 / 5)) (3 / 5)) = vec3 (24 / 25) (- (7 / 25)) 0"
  by (simp_all add: real_math_eval)

lemma atan2_0_1: "atan2 0 1 = 0"
  by (simp add: atan2_def)

lemma atan2_1_0: "atan2 1 0 = pi / 2"
  by (simp add: atan2_def)

lemma example_tipped_bend: "atan2 (- (24 / 25)) (- (7 / 25)) = arctan (24 / 7) - pi"
  by (simp add: atan2_def)

lemma example_projected_bend: "atan2 (- (24 / 25)) (7 / 25) = - arctan (24 / 7)"
  by (simp add: atan2_def arctan_minus)

lemma arctan_24_7: "pi / 4 < arctan (24 / 7)" "arctan (24 / 7) < pi / 2"
proof -
  have "arctan 1 < arctan (24 / 7)" by (simp add: arctan_less_iff)
  then show "pi / 4 < arctan (24 / 7)" by (simp add: arctan_one)
  show "arctan (24 / 7) < pi / 2" by (rule arctan_ubound)
qed

lemma example_twist_in_range:
  "compute_clamped_angle 0 (- 2) 2 = 0"
  "compute_clamped_angle (pi / 2) (- 2) 2 = pi / 2"
proof -
  show "compute_clamped_angle 0 (- 2) 2 = 0"
    by (simp add: compute_clamped_angle_def)
  have "\<not> (pi / 2 > 2 \<or> pi / 2 < - 2)"
    using pi_less_4 pi_gt_zero by linarith
  then show "compute_clamped_angle (pi / 2) (- 2) 2 = pi / 2"
    unfolding compute_clamped_angle_def by (simp only: if_False)
qed

lemma S32_cast_small: "- 1 < x \<Longrightarrow> x < 1 \<Longrightarrow> S32_cast x = 0"
  unfolding S32_cast_def by (auto simp: ceiling_eq_iff floor_eq_iff)

lemma example_bend_clamped:
  assumes "- (3 * pi / 4) < b" and "b < 0"
  shows "compute_clamped_angle b 0 (F_PI / 2) = 0"
proof -
  have pi0: "0 < pi" by (rule pi_gt_zero)
  have "- 1 < b / (2 * pi)" "b / (2 * pi) < 1"
    using assms pi0 by (simp_all add: field_simps)
  then have cast: "S32_cast (b / (2 * pi)) = 0" by (rule S32_cast_small)
  show ?thesis
    using assms pi0 by (simp add: compute_clamped_angle_def F_PI_def F_TWO_PI_def cast Let_def)
qed

lemma example_tipped_bend_clamped: "compute_clamped_angle (arctan (24 / 7) - pi) 0 (F_PI / 2) = 0"
  using arctan_24_7 by (intro example_bend_clamped) simp_all

lemma example_projected_bend_clamped: "compute_clamped_angle (- arctan (24 / 7)) 0 (F_PI / 2) = 0"
  using arctan_24_7 pi_gt_zero by (intro example_bend_clamped) simp_all

lemma arctan_24_7_neq: "arctan (24 / 7) \<noteq> pi" "arctan (24 / 7) \<noteq> 0"
  using arctan_24_7 pi_gt_zero by simp_all

lemma example_tipped_bend_arc:
  "real_shortestArc (vec3 (- (49 / 625)) (- (168 / 625)) (- (24 / 25))) (vec3 1 0 0) = example_bend_arc"
  by (simp add: real_math_eval sqrt_1152_625 example_bend_arc_def field_simps)

lemma example_tipped_result:
  "real_quat_mul (quat 0 0 (- (4 / 5)) (3 / 5)) example_bend_arc = example_projected_rot"
  by (simp add: real_math_eval example_bend_arc_def example_projected_rot_def field_simps)

lemma example_projected_rot_unit:
  "real_quat_normalize example_projected_rot = example_projected_rot"
  by (simp add: real_math_eval example_projected_rot_def field_simps)

lemma example_projected_frame:
  "real_vec_rot (vec3 1 0 0) example_projected_rot = vec3 (7 / 25) (- (24 / 25)) 0"
  "real_vec_rot (vec3 0 0 1) example_projected_rot = vec3 (- (24 / 25)) (- (7 / 25)) 0"
  "real_vec_rot (vec3 0 1 0) example_projected_rot = vec3 0 0 1"
  by (simp_all add: real_math_eval example_projected_rot_def field_simps)

lemma example_projected_adjustment:
  "real_shortestArc (vec3 (7 / 25) (- (24 / 25)) 0) (vec3 (7 / 25) (- (24 / 25)) 0) = quat 0 0 0 1"
  by (simp add: real_math_eval)

lemma example_projected_adjusted: "real_quat_mul example_projected_rot (quat 0 0 0 1) = example_projected_rot"
  by (simp add: real_math_eval example_projected_rot_def)

lemma example_projected_bend_arc:
  "real_shortestArc (vec3 (7 / 25) (- (24 / 25)) 0) (vec3 1 0 0) = quat 0 0 (3 / 5) (4 / 5)"
  by (simp add: real_math_eval sqrt_64_25)

lemma example_projected_result:
  "real_quat_mul example_projected_rot (quat 0 0 (3 / 5) (4 / 5)) = example_projected_twice"
  by (simp add: real_math_eval example_projected_rot_def example_projected_twice_def field_simps)

lemma example_projected_twice_unit:
  "real_quat_normalize example_projected_twice = example_projected_twice"
  by (simp add: real_math_eval example_projected_twice_def field_simps)

lemma example_projections_differ:
  "\<not> almost_equal real_math example_projected_twice example_projected_rot"
proof -
  have "sqrt 2 \<le> 2" by (rule real_le_lsqrt) simp_all
  moreover have "0 < sqrt 2" by simp
  moreover have "1 \<le> sqrt 2" by simp
  ultimately have "1 / 1000000 < 3 * sqrt 2 / 10" by linarith
  then show ?thesis
    by (simp add: real_math_def real_almost_equal_angle_def example_projected_twice_def
          example_projected_rot_def)
qed

lemma example_first_projection:
  "ElbowConstraint_computeAdjustedLocalRot real_math example_hinge example_tipped_rot
     = example_projected_rot"
  unfolding example_hinge_def
  apply (subst ElbowConstraint_computeAdjustedLocalRot.simps)
  apply (simp add: real_math_sel Let_def example_tipped_forward real_vec_sub_def real_vec_scale_def
           real_vec_dot_def real_vec_add_def real_vec_cross_def example_tipped_adjustment example_tipped_adjusted example_tipped_frame
           atan2_0_1 example_twist_in_range example_tipped_bend example_tipped_bend_clamped arctan_24_7_neq example_tipped_bend_arc example_tipped_result
           example_projected_rot_unit)
  done

lemma example_second_projection:
  "ElbowConstraint_computeAdjustedLocalRot real_math example_hinge example_projected_rot
     = example_projected_twice"
  unfolding example_hinge_def
  apply (subst ElbowConstraint_computeAdjustedLocalRot.simps)
  apply (simp add: real_math_sel Let_def real_vec_sub_def real_vec_scale_def
           real_vec_dot_def real_vec_add_def real_vec_cross_def example_projected_frame example_projected_adjustment example_projected_adjusted
           atan2_1_0 example_twist_in_range example_projected_bend example_projected_bend_clamped arctan_24_7_neq example_projected_bend_arc example_projected_result
           example_projected_twice_unit)
  done

text \<open>
  C5 (\<^verbatim>\<open>computeAdjustedLocalRot\<close> is idempotent up to \<^verbatim>\<open>almost_equal\<close>): not for the elbow. The
  example rotation is a unit quaternion. Its projection has the forward axis
  \<open>(7/25, -24/25, 0)\<close>, whose bend is negative and so still outside the range from 0 to a
  quarter turn; projecting the projection gives the quarter turn about \<open>x\<close>, and the two
  are not \<^verbatim>\<open>almost_equal\<close>.
\<close>

theorem ElbowConstraint_projection_not_idempotent:
  "real_quat_length example_tipped_rot = 1
   \<and> ElbowConstraint_computeAdjustedLocalRot real_math example_hinge example_tipped_rot
     = quat (2 * sqrt 2 / 5) (- (3 * sqrt 2 / 10)) (- (3 * sqrt 2 / 10)) (2 * sqrt 2 / 5)
   \<and> ElbowConstraint_computeAdjustedLocalRot real_math example_hinge
       (ElbowConstraint_computeAdjustedLocalRot real_math example_hinge example_tipped_rot)
     = quat (sqrt 2 / 2) 0 0 (sqrt 2 / 2)
   \<and> \<not> almost_equal real_math
         (ElbowConstraint_computeAdjustedLocalRot real_math example_hinge
            (ElbowConstraint_computeAdjustedLocalRot real_math example_hinge example_tipped_rot))
         (ElbowConstraint_computeAdjustedLocalRot real_math example_hinge example_tipped_rot)
   \<and> vec_rot real_math (vec3 1 0 0)
         (ElbowConstraint_computeAdjustedLocalRot real_math example_hinge example_tipped_rot)
     = vec3 (7 / 25) (- (24 / 25)) 0
   \<and> atan2 (- (24 / 25)) (7 / 25) < 0"
proof -
  have unit: "real_quat_length example_tipped_rot = 1"
    by (simp add: real_quat_length_def example_tipped_rot_def)
  have bend: "atan2 (- (24 / 25)) (7 / 25) < 0"
    using arctan_24_7 pi_gt_zero by (simp add: example_projected_bend)
  show ?thesis
    unfolding example_first_projection example_second_projection
    using unit bend example_projections_differ example_projected_frame(1)
    by (simp add: example_projected_rot_def example_projected_twice_def real_math_sel)
qed

end
